theory Spec2Isabelle
  imports Main "HOL-Library.Word"
begin

section \<open>Basic types of the host environment (src/proton/vm.ts)\<close>

text \<open>
  The WASM boundary passes \<open>i32\<close> values as JavaScript numbers and \<open>i64\<close> values as
  signed BigInts. Both are modelled as \<open>int\<close>. \<open>convertToUnsigned\<close> reinterprets an
  \<open>i64\<close> as an unsigned 64-bit value (\<open>BigInt.asUintN(64, v)\<close>), modelled as a
  \<open>64 word\<close>. Names are such unsigned 64-bit values.
\<close>

type_synonym byte = "8 word"
type_synonym u64 = "64 word"
type_synonym name = "64 word"
type_synonym ptr = int
type_synonym i32 = int
type_synonym i64 = int

definition convertToUnsigned :: "i64 \<Rightarrow> u64" where
  "convertToUnsigned v = word_of_int v"

text \<open>
  Exceptions are values. \<open>Error msg names\<close> is \<open>throw new Error(...)\<close>, with the
  constant part of the message and the names interpolated into it; \<open>RangeError\<close> is an
  access outside the guest memory; \<open>TypeError\<close> is a member access on \<open>undefined\<close>;
  \<open>EosioExitResult\<close> is the sentinel thrown by \<open>eosio_exit\<close>.
\<close>

datatype error =
    Error string "name list"
  | RangeError
  | TypeError
  | EosioExitResult int

text \<open>
  Modelled from the spec: the \<open>assert\<close> helper is not part of the source at hand. A
  failed host precondition is fatal to the action (section 7 of the design): it throws an
  error carrying the message.
\<close>

definition assert :: "bool \<Rightarrow> string \<Rightarrow> name list \<Rightarrow> error + unit" where
  \<comment> \<open>Modelled from the spec: the \<open>assert\<close> helper.\<close>
  "assert cond msg names = (if cond then Inr () else Inl (Error msg names))"

text \<open>
  The two permission names of lines 28-29. Modelled from the spec: \<open>nameToBigInt\<close> is
  not part of the source at hand; a name is the 64-bit base-32 encoding of its text
  (section 3 of the design), which gives these two values.
\<close>

definition owner :: name where
  "owner = 0xa726ab8000000000"

definition active :: name where
  "active = 0x3232eda800000000"

record permission_level =
  actor :: name
  permission :: name

text \<open>
  Modelled from the spec: the \<open>Account\<close> class is not part of the source at hand. An
  account as the host functions read it: its name, its WASM bytes (absent when the
  account has no code), whether it is a contract, the action names its ABI declares, its
  code sequence, and its named permissions, each holding an authority (a threshold over
  weighted accounts; keys play no part in the functions modelled here).
\<close>

record authority =
  threshold :: nat
  auth_accounts :: "(permission_level \<times> nat) list"

record account_permission =
  perm_name :: name
  required_auth :: authority

record account =
  acc_name :: name
  wasm :: "byte list option"
  isContract :: bool
  actions :: "name list"
  codeSequence :: nat
  permissions :: "account_permission list"

text \<open>
  \<open>VM.Context\<close> (lines 1690-1720). \<open>actionOrdinal\<close> is \<open>None\<close> while the field is
  undefined. The fields \<open>executionOrder\<close>, \<open>returnValue\<close> and \<open>transaction\<close> are not
  read by the functions modelled here and are left out. \<open>'d\<close> is the type of the decoded
  action data.
\<close>

datatype 'd vm_context = Context
  (sender: name)
  (actionOrdinal: "int option")
  (firstReceiver: account)
  (receiver: account)
  (action: name)
  (data: "byte list")
  (authorization: "permission_level list")
  (actionsQueue: "'d vm_context list")
  (notificationsQueue: "'d vm_context list")
  (decodedData: "'d option")

definition isInline :: "'d vm_context \<Rightarrow> bool" where
  "isInline c = (sender c \<noteq> 0)"

definition isNotification :: "'d vm_context \<Rightarrow> bool" where
  "isNotification c = (acc_name (receiver c) \<noteq> acc_name (firstReceiver c))"

section \<open>Authorization intrinsics (lines 130-163)\<close>

text \<open>
  The \<open>for\<close> loop shared by \<open>require_auth\<close> and \<open>has_auth\<close>: it walks the
  authorization list and stops at the first entry whose actor is the name and whose
  permission is \<open>active\<close> or \<open>owner\<close>.
\<close>

fun hasAuth_loop :: "name \<Rightarrow> permission_level list \<Rightarrow> bool" where
  "hasAuth_loop n [] = False"
| "hasAuth_loop n (auth # rest) =
     (if actor auth = n
      then (if permission auth = active \<or> permission auth = owner then True
            else hasAuth_loop n rest)
      else hasAuth_loop n rest)"

definition require_auth :: "'d vm_context \<Rightarrow> i64 \<Rightarrow> error + unit" where
  "require_auth ctx n =
     (let nm = convertToUnsigned n;
          hasAuth = hasAuth_loop nm (authorization ctx)
      in assert hasAuth ''missing required authority '' [nm])"

definition has_auth :: "'d vm_context \<Rightarrow> i64 \<Rightarrow> bool" where
  "has_auth ctx n = hasAuth_loop (convertToUnsigned n) (authorization ctx)"


section \<open>Guest linear memory\<close>

text \<open>
  Modelled from the spec: the memory view classes (\<open>Buffer.from_\<close>, \<open>Memory\<close>) are not
  part of the source at hand. Section 4.1 of the design gives bounded byte-slice aliasing
  over the guest memory, every access bounds-checked against the current memory size and
  fatal to the action when out of bounds. The memory is the list of its bytes.
  \<open>mem_read\<close> is the content of the view \<open>Buffer.from_(memory.buffer, p, len)\<close>;
  \<open>mem_write\<close> is \<open>Buffer.from_(memory.buffer, p, len).set(src)\<close>, which also fails
  when the source is longer than the view.
\<close>

definition mem_view_ok :: "byte list \<Rightarrow> ptr \<Rightarrow> i32 \<Rightarrow> bool" where
  \<comment> \<open>Modelled from the spec: the bounds check of a view on the guest memory.\<close>
  "mem_view_ok mem p len = (0 \<le> p \<and> 0 \<le> len \<and> nat p + nat len \<le> length mem)"

definition mem_read :: "byte list \<Rightarrow> ptr \<Rightarrow> i32 \<Rightarrow> error + byte list" where
  \<comment> \<open>Modelled from the spec: the bytes of a bounds-checked view.\<close>
  "mem_read mem p len =
     (if mem_view_ok mem p len then Inr (take (nat len) (drop (nat p) mem))
      else Inl RangeError)"

definition mem_write :: "byte list \<Rightarrow> ptr \<Rightarrow> i32 \<Rightarrow> byte list \<Rightarrow> error + byte list" where
  \<comment> \<open>Modelled from the spec: \<open>set\<close> on a bounds-checked view.\<close>
  "mem_write mem p len src =
     (if \<not> mem_view_ok mem p len then Inl RangeError
      else if nat len < length src then Inl RangeError
      else Inr (take (nat p) mem @ src @ drop (nat p + length src) mem))"

section \<open>Secondary key conversion for checksum256 (lines 63-74)\<close>

text \<open>
  \<open>Uint8Array.prototype.slice(a, b)\<close> on non-negative bounds: a copy of the bytes from
  \<open>a\<close> up to \<open>b\<close>, clamped to the length. \<open>reverse\<close> then works on the copy.
\<close>

definition slice_copy :: "nat \<Rightarrow> nat \<Rightarrow> 'a list \<Rightarrow> 'a list" where
  "slice_copy a b xs = take (b - a) (drop a xs)"

definition checksum256_from :: "byte list \<Rightarrow> byte list" where
  "checksum256_from buffer =
     (let low = slice_copy 0 16 buffer;
          high = slice_copy 16 32 buffer
      in rev low @ rev high)"

text \<open>
  \<open>checksum256_to buffer v\<close> is the content of \<open>buffer\<close> after \<open>to(buffer, v)\<close>:
  \<open>buffer.set\<close> copies the converted bytes to the start of the buffer and throws when
  they do not fit.
\<close>

definition checksum256_to :: "byte list \<Rightarrow> byte list \<Rightarrow> error + byte list" where
  "checksum256_to buffer v =
     (let low = slice_copy 0 16 v;
          high = slice_copy 16 32 v;
          src = rev low @ rev high
      in if length buffer < length src then Inl RangeError
         else Inr (src @ drop (length src) buffer))"

text \<open>
  The conversion in the words of the design document: swap the two 16-byte halves and
  reverse each half.
\<close>

definition spec_swap_halves_reverse_each :: "byte list \<Rightarrow> byte list" where
  "spec_swap_halves_reverse_each b = rev (slice_copy 16 32 b) @ rev (slice_copy 0 16 b)"

section \<open>alt_bn128_pair (lines 478-492)\<close>

text \<open>
  The pairing primitive \<open>bn128.pairing\<close> is an external library; it is the parameter
  \<open>pairing\<close>, which returns bytes or throws. The view on the guest memory is taken
  outside the \<open>try\<close> block.
\<close>

definition alt_bn128_pair ::
  "(byte list \<Rightarrow> error + byte list) \<Rightarrow> byte list \<Rightarrow> ptr \<Rightarrow> i32 \<Rightarrow> error + i32" where
  "alt_bn128_pair pairing mem pairs pairslen =
     (case mem_read mem pairs pairslen of
        Inl e \<Rightarrow> Inl e
      | Inr pairsRaw \<Rightarrow>
          (case pairing pairsRaw of
             Inl e \<Rightarrow> Inr (- 1)
           | Inr result \<Rightarrow>
               if length result \<noteq> 32 then Inr (- 1)
               else Inr (if result ! 31 = 0 then 1 else 0)))"

text \<open>
  Modelled from the spec: the result of the external pairing primitive. The design gives
  it EIP-197 semantics: on well-formed input the result is the 32-byte big-endian
  encoding of 1 when the pairing product equals the identity and of 0 otherwise.
\<close>

definition eip197_result :: "bool \<Rightarrow> byte list" where
  \<comment> \<open>Modelled from the spec: the EIP-197 result of the pairing primitive.\<close>
  "eip197_result product_is_identity =
     replicate 31 0 @ [if product_is_identity then 1 else 0]"


section \<open>Rows, tables and the store\<close>

record KeyValueObject =
  tableId :: nat
  primaryKey :: u64
  payer :: u64
  kv_value :: "byte list"

record 'k IndexObject =
  idx_tableId :: nat
  idx_primaryKey :: u64
  secondaryKey :: 'k
  idx_payer :: u64

text \<open>
  Modelled from the spec: the \<open>Table\<close> class is not part of the source at hand. By
  sections 3 and 4.3 of the design a table is identified by (code, scope, table), owns a
  numeric id and a primary index, an ordered map from the primary key to the row, with
  \<open>get\<close>, \<open>set\<close>, \<open>delete\<close>, \<open>lowerbound\<close>, \<open>upperbound\<close>, \<open>next\<close> (strict
  successor of a key), \<open>prev\<close> (strict predecessor of a key) and \<open>penultimate\<close> (the
  row with the maximum key). The index is the list of its rows; the lookups select by
  key, so the order of the list is immaterial.
\<close>

record Table =
  tab_id :: nat
  tab_code :: name
  tab_scope :: name
  tab_table :: name
  tab_rows :: "KeyValueObject list"

fun least_row :: "KeyValueObject list \<Rightarrow> KeyValueObject option" where
  \<comment> \<open>Modelled from the spec: the row with the least key of a list of rows.\<close>
  "least_row [] = None"
| "least_row (r # rs) =
     (case least_row rs of
        None \<Rightarrow> Some r
      | Some m \<Rightarrow> if primaryKey r \<le> primaryKey m then Some r else Some m)"

fun greatest_row :: "KeyValueObject list \<Rightarrow> KeyValueObject option" where
  \<comment> \<open>Modelled from the spec: the row with the greatest key of a list of rows.\<close>
  "greatest_row [] = None"
| "greatest_row (r # rs) =
     (case greatest_row rs of
        None \<Rightarrow> Some r
      | Some m \<Rightarrow> if primaryKey m \<le> primaryKey r then Some r else Some m)"

definition tab_get :: "Table \<Rightarrow> u64 \<Rightarrow> KeyValueObject option" where
  \<comment> \<open>Modelled from the spec: \<open>Table.get\<close>.\<close>
  "tab_get t k = find (\<lambda>r. primaryKey r = k) (tab_rows t)"

definition tab_has :: "Table \<Rightarrow> u64 \<Rightarrow> bool" where
  \<comment> \<open>Modelled from the spec: \<open>Table.has\<close>.\<close>
  "tab_has t k = (tab_get t k \<noteq> None)"

definition tab_set :: "Table \<Rightarrow> u64 \<Rightarrow> KeyValueObject \<Rightarrow> Table" where
  \<comment> \<open>Modelled from the spec: \<open>Table.set\<close>, insert or replace under the key.\<close>
  "tab_set t k r = t\<lparr>tab_rows := r # filter (\<lambda>x. primaryKey x \<noteq> k) (tab_rows t)\<rparr>"

definition tab_next :: "Table \<Rightarrow> u64 \<Rightarrow> KeyValueObject option" where
  \<comment> \<open>Modelled from the spec: \<open>Table.next\<close>, the strict successor of a key.\<close>
  "tab_next t k = least_row (filter (\<lambda>r. k < primaryKey r) (tab_rows t))"

definition tab_prev :: "Table \<Rightarrow> u64 \<Rightarrow> KeyValueObject option" where
  \<comment> \<open>Modelled from the spec: \<open>Table.prev\<close>, the strict predecessor of a key.\<close>
  "tab_prev t k = greatest_row (filter (\<lambda>r. primaryKey r < k) (tab_rows t))"

definition tab_lowerbound :: "Table \<Rightarrow> u64 \<Rightarrow> KeyValueObject option" where
  \<comment> \<open>Modelled from the spec: \<open>Table.lowerbound\<close>, the first row with a key not below the bound.\<close>
  "tab_lowerbound t k = least_row (filter (\<lambda>r. k \<le> primaryKey r) (tab_rows t))"

definition tab_upperbound :: "Table \<Rightarrow> u64 \<Rightarrow> KeyValueObject option" where
  \<comment> \<open>Modelled from the spec: \<open>Table.upperbound\<close>, the first row with a key above the bound.\<close>
  "tab_upperbound t k = least_row (filter (\<lambda>r. k < primaryKey r) (tab_rows t))"

definition tab_penultimate :: "Table \<Rightarrow> KeyValueObject option" where
  \<comment> \<open>Modelled from the spec: \<open>Table.penultimate\<close>, the row with the maximum key.\<close>
  "tab_penultimate t = greatest_row (tab_rows t)"

text \<open>
  Modelled from the spec: the \<open>Store\<close> class is not part of the source at hand. It holds
  the tables keyed by (code, scope, table) and the four secondary indices;
  \<open>createTable\<close> registers a new, empty table under a numeric id that no other table
  has. A \<open>Table\<close> object is shared between the store and the iterator caches and
  mutated in place; \<open>update_table\<close> is that mutation, seen from the store. The keys of
  the \<open>double\<close> index are kept as their 64-bit patterns.
\<close>

record Store =
  tables :: "Table list"
  next_table_id :: nat
  store_idx64 :: "u64 IndexObject list"
  store_idx128 :: "128 word IndexObject list"
  store_idx256 :: "byte list IndexObject list"
  store_idxDouble :: "u64 IndexObject list"

definition store_findTable :: "Store \<Rightarrow> name \<Rightarrow> name \<Rightarrow> name \<Rightarrow> Table option" where
  \<comment> \<open>Modelled from the spec: \<open>Store.findTable\<close>.\<close>
  "store_findTable st c sc t =
     find (\<lambda>tab. tab_code tab = c \<and> tab_scope tab = sc \<and> tab_table tab = t) (tables st)"

definition getTableById :: "Store \<Rightarrow> nat \<Rightarrow> Table option" where
  \<comment> \<open>Modelled from the spec: \<open>Store.getTableById\<close>.\<close>
  "getTableById st i = find (\<lambda>tab. tab_id tab = i) (tables st)"

definition createTable :: "Store \<Rightarrow> name \<Rightarrow> name \<Rightarrow> name \<Rightarrow> name \<Rightarrow> Table \<times> Store" where
  \<comment> \<open>Modelled from the spec: \<open>Store.createTable\<close>.\<close>
  "createTable st c sc t pay =
     (let tab = \<lparr>tab_id = next_table_id st, tab_code = c, tab_scope = sc, tab_table = t,
                 tab_rows = []\<rparr>
      in (tab, st\<lparr>tables := tables st @ [tab], next_table_id := next_table_id st + 1\<rparr>))"

definition update_table :: "Store \<Rightarrow> Table \<Rightarrow> Store" where
  \<comment> \<open>Modelled from the spec: the in-place mutation of a \<open>Table\<close> object, seen from the store.\<close>
  "update_table st tab =
     st\<lparr>tables := map (\<lambda>t. if tab_id t = tab_id tab then tab else t) (tables st)\<rparr>"

text \<open>
  Modelled from the spec: the \<open>SecondaryKeyStore\<close> class is not part of the source at
  hand. By section 4.4 of the design a secondary index holds one entry per (table,
  primary key); \<open>set(old, new)\<close> inserts the new entry or replaces the old one, and
  \<open>get\<close> finds the entry of a table by its primary key. The index is the list of its
  entries.
\<close>

definition same_row :: "'k IndexObject \<Rightarrow> 'k IndexObject \<Rightarrow> bool" where
  \<comment> \<open>Modelled from the spec: the identity of an index entry, its (table, primary key).\<close>
  "same_row a b = (idx_tableId a = idx_tableId b \<and> idx_primaryKey a = idx_primaryKey b)"

definition idx_set ::
  "'k IndexObject list \<Rightarrow> 'k IndexObject option \<Rightarrow> 'k IndexObject \<Rightarrow> 'k IndexObject list" where
  \<comment> \<open>Modelled from the spec: \<open>SecondaryKeyStore.set\<close>, insert or replace.\<close>
  "idx_set index old new =
     new # filter (\<lambda>x. \<not> same_row x new
                       \<and> (case old of None \<Rightarrow> True | Some od \<Rightarrow> \<not> same_row x od)) index"

definition idx_get :: "'k IndexObject list \<Rightarrow> nat \<Rightarrow> u64 \<Rightarrow> 'k IndexObject option" where
  \<comment> \<open>Modelled from the spec: \<open>SecondaryKeyStore.get\<close>, by table and primary key.\<close>
  "idx_get index tid pk = find (\<lambda>x. idx_tableId x = tid \<and> idx_primaryKey x = pk) index"

section \<open>Iterator cache\<close>

text \<open>
  Modelled from the spec: the \<open>IteratorCache\<close> class is not part of the source at hand.
  By section 4.2 of the design: \<open>cache_table\<close> is idempotent and otherwise allocates the
  next end sentinel (-2, -3, ...); \<open>add\<close> appends the row reference and returns its
  non-negative index; \<open>get\<close> fails on a negative, never issued or tombstoned handle
  (\<open>remove\<close> leaves the tombstone \<open>None\<close>); the remaining operations are the
  inverse lookups between table ids and end iterators. The entry at
  position \<open>i\<close> of \<open>endIteratorToTable\<close> is the id of the table whose end iterator
  is \<open>-(i + 2)\<close>; the table itself is read from the store.
\<close>

record 'a IteratorCache =
  endIteratorToTable :: "nat list"
  iteratorToObject :: "'a option list"

definition empty_cache :: "'a IteratorCache" where
  \<comment> \<open>Modelled from the spec: \<open>new IteratorCache()\<close>.\<close>
  "empty_cache = \<lparr>endIteratorToTable = [], iteratorToObject = []\<rparr>"

fun index_of :: "'a \<Rightarrow> 'a list \<Rightarrow> nat option" where
  \<comment> \<open>Modelled from the spec: the first position of an element in a list.\<close>
  "index_of x [] = None"
| "index_of x (y # ys) =
     (if x = y then Some 0 else map_option Suc (index_of x ys))"

definition indexToEndIterator :: "nat \<Rightarrow> i32" where
  \<comment> \<open>Modelled from the spec: the end sentinels -2, -3, ....\<close>
  "indexToEndIterator i = - (int i + 2)"

definition cacheTable :: "'a IteratorCache \<Rightarrow> Table \<Rightarrow> i32 \<times> 'a IteratorCache" where
  \<comment> \<open>Modelled from the spec: \<open>IteratorCache.cacheTable\<close>.\<close>
  "cacheTable c tab =
     (case index_of (tab_id tab) (endIteratorToTable c) of
        Some i \<Rightarrow> (indexToEndIterator i, c)
      | None \<Rightarrow>
          (indexToEndIterator (length (endIteratorToTable c)),
           c\<lparr>endIteratorToTable := endIteratorToTable c @ [tab_id tab]\<rparr>))"

definition cache_add :: "'a IteratorCache \<Rightarrow> 'a \<Rightarrow> i32 \<times> 'a IteratorCache" where
  \<comment> \<open>Modelled from the spec: \<open>IteratorCache.add\<close>.\<close>
  "cache_add c obj =
     (int (length (iteratorToObject c)),
      c\<lparr>iteratorToObject := iteratorToObject c @ [Some obj]\<rparr>)"

definition cache_get :: "'a IteratorCache \<Rightarrow> i32 \<Rightarrow> error + 'a" where
  \<comment> \<open>Modelled from the spec: \<open>IteratorCache.get\<close>.\<close>
  "cache_get c it =
     (if it < 0 then Inl (Error ''invalid iterator'' [])
      else if length (iteratorToObject c) \<le> nat it then Inl (Error ''iterator out of range'' [])
      else (case iteratorToObject c ! nat it of
              None \<Rightarrow> Inl (Error ''dereference of deleted object'' [])
            | Some obj \<Rightarrow> Inr obj))"

definition getEndIteratorByTableId :: "'a IteratorCache \<Rightarrow> nat \<Rightarrow> error + i32" where
  \<comment> \<open>Modelled from the spec: \<open>IteratorCache.getEndIteratorByTableId\<close>.\<close>
  "getEndIteratorByTableId c i =
     (case index_of i (endIteratorToTable c) of
        None \<Rightarrow> Inl (Error ''table not in cache'' [])
      | Some k \<Rightarrow> Inr (indexToEndIterator k))"

definition findTableByEndIterator :: "'a IteratorCache \<Rightarrow> Store \<Rightarrow> i32 \<Rightarrow> Table option" where
  \<comment> \<open>Modelled from the spec: \<open>IteratorCache.findTableByEndIterator\<close>.\<close>
  "findTableByEndIterator c st ei =
     (let k = - ei - 2
      in if 0 \<le> k \<and> nat k < length (endIteratorToTable c)
         then getTableById st (endIteratorToTable c ! nat k)
         else None)"

section \<open>The virtual machine state\<close>

text \<open>
  Modelled from the spec: the \<open>Blockchain\<close> class is not part of the source at hand; the
  host functions read its accounts (by name), its store and its list of action traces.
\<close>

record 'd Blockchain =
  accounts :: "account list"
  store :: Store
  actionTraces :: "'d vm_context list"

definition getAccount :: "'d Blockchain \<Rightarrow> name \<Rightarrow> account option" where
  \<comment> \<open>Modelled from the spec: \<open>Blockchain.getAccount\<close>.\<close>
  "getAccount b n = find (\<lambda>a. acc_name a = n) (accounts b)"

text \<open>
  The fields of class \<open>VM\<close> (lines 93-103) and the guest memory it inherits. The keys of
  the \<open>double\<close> index are kept as their 64-bit patterns.
\<close>

record 'd vm_state =
  cur_context :: "'d vm_context"
  kvCache :: "KeyValueObject IteratorCache"
  idx64 :: "u64 IndexObject IteratorCache"
  idx128 :: "128 word IndexObject IteratorCache"
  idx256 :: "byte list IndexObject IteratorCache"
  idxDouble :: "u64 IndexObject IteratorCache"
  bc :: "'d Blockchain"
  memory :: "byte list"

text \<open>
  Modelled from the spec: \<open>Memory.writeUInt64\<close> is not part of the source at hand; it is
  the bounds-checked little-endian write of an unsigned 64-bit value (section 4.1).
\<close>

definition u64_le_bytes :: "u64 \<Rightarrow> byte list" where
  \<comment> \<open>Modelled from the spec: the little-endian bytes of an unsigned 64-bit value.\<close>
  "u64_le_bytes v = map (\<lambda>i. ucast (drop_bit (8 * i) v)) [0..<8]"

definition writeUInt64 :: "byte list \<Rightarrow> ptr \<Rightarrow> u64 \<Rightarrow> error + byte list" where
  \<comment> \<open>Modelled from the spec: \<open>Memory.writeUInt64\<close>.\<close>
  "writeUInt64 mem p v = mem_write mem p 8 (u64_le_bytes v)"

definition findTable :: "'d vm_state \<Rightarrow> name \<Rightarrow> name \<Rightarrow> name \<Rightarrow> Table option" where
  "findTable vm c sc t = store_findTable (store (bc vm)) c sc t"

definition findOrCreateTable ::
  "'d vm_state \<Rightarrow> name \<Rightarrow> name \<Rightarrow> name \<Rightarrow> name \<Rightarrow> Table \<times> 'd vm_state" where
  "findOrCreateTable vm c sc t pay =
     (case store_findTable (store (bc vm)) c sc t of
        Some tab \<Rightarrow> (tab, vm)
      | None \<Rightarrow>
          (let (tab, st) = createTable (store (bc vm)) c sc t pay
           in (tab, vm\<lparr>bc := (bc vm)\<lparr>store := st\<rparr>\<rparr>)))"


section \<open>get_code_hash (lines 189-211)\<close>

record code_hash_result =
  struct_version :: int
  code_sequence :: nat
  code_hash :: "byte list"
  vm_type :: nat
  vm_version :: nat

text \<open>
  The object handed to \<open>Serializer.encode\<close>. The hash \<open>Checksum256.hash\<close> (SHA-256) is
  an external primitive, the parameter \<open>sha256\<close>.
\<close>

definition code_hash_object ::
  "(byte list \<Rightarrow> byte list) \<Rightarrow> 'd Blockchain \<Rightarrow> i64 \<Rightarrow> i32 \<Rightarrow> code_hash_result" where
  "code_hash_object sha256 b accountName_i structVersion =
     (let accountName = convertToUnsigned accountName_i;
          acct = getAccount b accountName
      in \<lparr>struct_version = min 0 structVersion,
          code_sequence = (case acct of Some a \<Rightarrow> codeSequence a | None \<Rightarrow> 0),
          code_hash =
            (case acct of
               Some a \<Rightarrow> (case wasm a of Some w \<Rightarrow> sha256 w | None \<Rightarrow> replicate 32 0)
             | None \<Rightarrow> replicate 32 0),
          vm_type = 0,
          vm_version = 0\<rparr>)"

text \<open>
  The serializer is external, the parameter \<open>encode\<close>, which returns the packed bytes or
  throws. The bytes are written to the guest memory and their number is returned.
\<close>

definition get_code_hash ::
  "(byte list \<Rightarrow> byte list) \<Rightarrow> (code_hash_result \<Rightarrow> error + byte list) \<Rightarrow>
   'd vm_state \<Rightarrow> i64 \<Rightarrow> i32 \<Rightarrow> ptr \<Rightarrow> (error + i32) \<times> 'd vm_state" where
  "get_code_hash sha256 encode vm accountName_i structVersion packedResult =
     (case encode (code_hash_object sha256 (bc vm) accountName_i structVersion) of
        Inl e \<Rightarrow> (Inl e, vm)
      | Inr arr \<Rightarrow>
          (case mem_write (memory vm) packedResult (int (length arr)) arr of
             Inl e \<Rightarrow> (Inl e, vm)
           | Inr m \<Rightarrow> (Inr (int (length arr)), vm\<lparr>memory := m\<rparr>)))"

text \<open>
  Modelled from the spec: the struct type \<open>CodeHashResult\<close> and the serializer are not
  part of the source at hand. The fields are packed in the order the design lists them,
  in the layout of the Antelope \<open>code_hash_result\<close>: \<open>struct_version\<close> as an
  unsigned variable-length integer (varuint32), \<open>code_sequence\<close> as an unsigned 64-bit
  little-endian integer, the bytes of \<open>code_hash\<close>, and \<open>vm_type\<close> and
  \<open>vm_version\<close> as one byte each. A number outside the range of its field makes the
  serializer throw; an unsigned field has no negative values.
\<close>

fun varuint32_bytes :: "nat \<Rightarrow> byte list" where
  \<comment> \<open>Modelled from the spec: seven bits to a byte, low bits first, the top bit set on
     every byte but the last.\<close>
  "varuint32_bytes n =
     (if n < 128 then [of_nat n]
      else of_nat (128 + n mod 128) # varuint32_bytes (n div 128))"

definition encode_code_hash_result :: "code_hash_result \<Rightarrow> error + byte list" where
  \<comment> \<open>Modelled from the spec: \<open>Serializer.encode\<close> at the type \<open>CodeHashResult\<close>.\<close>
  "encode_code_hash_result obj =
     (if struct_version obj < 0 then Inl (Error ''Number underflows varuint32'' [])
      else if 2 ^ 32 \<le> struct_version obj then Inl (Error ''Number overflows varuint32'' [])
      else if 2 ^ 64 \<le> code_sequence obj then Inl (Error ''Number overflows uint64'' [])
      else if 2 ^ 8 \<le> vm_type obj \<or> 2 ^ 8 \<le> vm_version obj
      then Inl (Error ''Number overflows uint8'' [])
      else Inr (varuint32_bytes (nat (struct_version obj))
                @ u64_le_bytes (of_nat (code_sequence obj))
                @ code_hash obj
                @ [of_nat (vm_type obj), of_nat (vm_version obj)]))"

section \<open>Notifications and inline actions (lines 213-291)\<close>

definition push_notification :: "'d vm_context \<Rightarrow> 'd vm_context \<Rightarrow> 'd vm_context" where
  "push_notification c n =
     (case c of Context s ao fr r a d au aq nq dd \<Rightarrow>
        Context s ao fr r a d au aq (nq @ [n]) dd)"

definition push_action :: "'d vm_context \<Rightarrow> 'd vm_context \<Rightarrow> 'd vm_context" where
  "push_action c n =
     (case c of Context s ao fr r a d au aq nq dd \<Rightarrow>
        Context s ao fr r a d au (aq @ [n]) nq dd)"

text \<open>
  \<open>n.receiver === account\<close> compares object references; the blockchain holds one account
  object per name, so it is the equality of the names.
\<close>

definition require_recipient :: "'d vm_state \<Rightarrow> i64 \<Rightarrow> (error + unit) \<times> 'd vm_state" where
  "require_recipient vm name_i =
     (let accountName = convertToUnsigned name_i;
          ctx = cur_context vm
      in case getAccount (bc vm) accountName of
           None \<Rightarrow> (Inl (Error ''Account missing for require_recipient'' [accountName]), vm)
         | Some acct \<Rightarrow>
             (let hasRecipient =
                    find (\<lambda>n. isNotification n \<and> acc_name (receiver n) = acc_name acct
                               \<and> actionOrdinal n = actionOrdinal ctx)
                      (actionTraces (bc vm))
              in if hasRecipient \<noteq> None then (Inr (), vm)
                 else if \<not> isContract acct then (Inr (), vm)
                 else if acc_name acct = acc_name (receiver ctx) then (Inr (), vm)
                 else
                   (let new_context =
                          Context 0 (actionOrdinal ctx)
                            (if isNotification ctx then firstReceiver ctx else receiver ctx)
                            acct (action ctx) (data ctx) [] [] [] (decodedData ctx)
                    in (Inr (), vm\<lparr>cur_context := push_notification ctx new_context\<rparr>))))"

text \<open>
  The decoded \<open>Action\<close>. \<open>Serializer.decode\<close> and \<open>Action.decodeData\<close> are external, the
  parameters \<open>decode\<close> and \<open>decodeData\<close>; both return a value or throw.
\<close>

record decoded_action =
  act_account :: name
  act_name :: name
  act_authorization :: "permission_level list"
  act_data :: "byte list"

text \<open>
  Modelled from the spec: the \<open>Account\<close> class is not part of the source at hand.
  \<open>contract.actions\<close> is a JavaScript object with one property for each action the ABI
  declares, and \<open>contract.actions[name]\<close> is a property lookup: it also finds what
  every object inherits. Of the inherited properties only \<open>constructor\<close> is spelled
  with the characters of a name, so the lookup is truthy for a declared action and for
  the name \<open>constructor\<close>.
\<close>

definition name_constructor :: name where
  \<comment> \<open>Modelled from the spec: the name \<open>constructor\<close> in the base-32 name encoding.\<close>
  "name_constructor = 0x45278cdf48cd2e00"

definition actions_lookup :: "account \<Rightarrow> name \<Rightarrow> bool" where
  \<comment> \<open>Modelled from the spec: the truth value of \<open>contract.actions[name]\<close>.\<close>
  "actions_lookup contract nm = (nm \<in> set (actions contract) \<or> nm = name_constructor)"

definition send_inline ::
  "(byte list \<Rightarrow> error + decoded_action) \<Rightarrow> (account \<Rightarrow> decoded_action \<Rightarrow> error + 'd) \<Rightarrow>
   'd vm_state \<Rightarrow> ptr \<Rightarrow> i32 \<Rightarrow> (error + unit) \<times> 'd vm_state" where
  "send_inline decode decodeData vm act sz =
     (case mem_read (memory vm) act sz of
        Inl e \<Rightarrow> (Inl e, vm)
      | Inr inlineBuffer \<Rightarrow>
          (case decode inlineBuffer of
             Inl e \<Rightarrow> (Inl e, vm)
           | Inr decodedAction \<Rightarrow>
               (case getAccount (bc vm) (act_account decodedAction) of
                  None \<Rightarrow>
                    (Inl (Error ''Contract is missing for inline action''
                            [act_account decodedAction]), vm)
                | Some contract \<Rightarrow>
                    if \<not> isContract contract
                    then (Inl (Error ''Contract is missing for inline action''
                                 [act_account decodedAction]), vm)
                    else if actions_lookup contract (act_name decodedAction)
                    then (case decodeData contract decodedAction of
                            Inl e \<Rightarrow> (Inl e, vm)
                          | Inr dd \<Rightarrow>
                              (let new_context =
                                     Context (acc_name (receiver (cur_context vm))) None
                                       contract contract (act_name decodedAction)
                                       (act_data decodedAction)
                                       (act_authorization decodedAction) [] [] (Some dd)
                               in (Inr (),
                                   vm\<lparr>cur_context := push_action (cur_context vm) new_context\<rparr>)))
                    else (Inr (), vm))))"

section \<open>Primary index intrinsics (lines 582-713)\<close>

definition db_store_i64 ::
  "'d vm_state \<Rightarrow> i64 \<Rightarrow> i64 \<Rightarrow> i64 \<Rightarrow> i64 \<Rightarrow> ptr \<Rightarrow> i32 \<Rightarrow> (error + i32) \<times> 'd vm_state" where
  "db_store_i64 vm scope_i table_i payer_i id_i dat len =
     (let sc = convertToUnsigned scope_i;
          tb = convertToUnsigned table_i;
          pay = convertToUnsigned payer_i;
          key = convertToUnsigned id_i;
          (tab, vm1) = findOrCreateTable vm (acc_name (receiver (cur_context vm))) sc tb pay
      in if pay = 0
         then (Inl (Error ''must specify a valid account to pay for new record'' []), vm1)
         else if tab_has tab key then (Inl (Error ''key uniqueness violation'' []), vm1)
         else (case mem_read (memory vm1) dat len of
                 Inl e \<Rightarrow> (Inl e, vm1)
               | Inr bytes \<Rightarrow>
                   (let kv = \<lparr>tableId = tab_id tab, primaryKey = key, payer = pay,
                              kv_value = bytes\<rparr>;
                        vm2 = vm1\<lparr>bc := (bc vm1)
                                 \<lparr>store := update_table (store (bc vm1)) (tab_set tab key kv)\<rparr>\<rparr>;
                        (ei, c1) = cacheTable (kvCache vm2) tab;
                        (h, c2) = cache_add c1 kv
                    in (Inr h, vm2\<lparr>kvCache := c2\<rparr>))))"

text \<open>The common tail of the lookups: write the primary key, cache the row, return its handle.\<close>

definition write_and_add ::
  "'d vm_state \<Rightarrow> ptr \<Rightarrow> KeyValueObject \<Rightarrow> (error + i32) \<times> 'd vm_state" where
  "write_and_add vm primary kv =
     (case writeUInt64 (memory vm) primary (primaryKey kv) of
        Inl e \<Rightarrow> (Inl e, vm)
      | Inr m \<Rightarrow>
          (let (h, c) = cache_add (kvCache vm) kv
           in (Inr h, vm\<lparr>memory := m, kvCache := c\<rparr>)))"

definition db_next_i64 :: "'d vm_state \<Rightarrow> i32 \<Rightarrow> ptr \<Rightarrow> (error + i32) \<times> 'd vm_state" where
  "db_next_i64 vm iterator primary =
     (if iterator < - 1 then (Inr (- 1), vm)
      else (case cache_get (kvCache vm) iterator of
              Inl e \<Rightarrow> (Inl e, vm)
            | Inr kv \<Rightarrow>
                (case getTableById (store (bc vm)) (tableId kv) of
                   None \<Rightarrow> (Inl TypeError, vm)
                 | Some tab \<Rightarrow>
                     (case tab_next tab (primaryKey kv) of
                        None \<Rightarrow>
                          (case getEndIteratorByTableId (kvCache vm) (tableId kv) of
                             Inl e \<Rightarrow> (Inl e, vm)
                           | Inr ei \<Rightarrow> (Inr ei, vm))
                      | Some kvNext \<Rightarrow> write_and_add vm primary kvNext))))"

definition db_previous_i64 :: "'d vm_state \<Rightarrow> i32 \<Rightarrow> ptr \<Rightarrow> (error + i32) \<times> 'd vm_state" where
  "db_previous_i64 vm iterator primary =
     (if iterator < - 1
      then (case findTableByEndIterator (kvCache vm) (store (bc vm)) iterator of
              None \<Rightarrow> (Inl (Error ''not a valid end iterator'' []), vm)
            | Some tab \<Rightarrow>
                (case tab_penultimate tab of
                   None \<Rightarrow> (Inr (- 1), vm)
                 | Some kv \<Rightarrow> write_and_add vm primary kv))
      else (case cache_get (kvCache vm) iterator of
              Inl e \<Rightarrow> (Inl e, vm)
            | Inr kv \<Rightarrow>
                (case getTableById (store (bc vm)) (tableId kv) of
                   None \<Rightarrow> (Inl TypeError, vm)
                 | Some tab \<Rightarrow>
                     (case tab_prev tab (primaryKey kv) of
                        None \<Rightarrow> (Inr (- 1), vm)
                      | Some kvPrev \<Rightarrow> write_and_add vm primary kvPrev))))"

text \<open>
  The three lookups differ only in the table operation: \<open>get\<close>, \<open>lowerbound\<close>,
  \<open>upperbound\<close>.
\<close>

definition db_lookup ::
  "(Table \<Rightarrow> u64 \<Rightarrow> KeyValueObject option) \<Rightarrow>
   'd vm_state \<Rightarrow> i64 \<Rightarrow> i64 \<Rightarrow> i64 \<Rightarrow> i64 \<Rightarrow> (error + i32) \<times> 'd vm_state" where
  "db_lookup look vm code_i scope_i table_i id_i =
     (let cd = convertToUnsigned code_i;
          sc = convertToUnsigned scope_i;
          tb = convertToUnsigned table_i;
          key = convertToUnsigned id_i
      in case findTable vm cd sc tb of
           None \<Rightarrow> (Inr (- 1), vm)
         | Some tab \<Rightarrow>
             (let (ei, c1) = cacheTable (kvCache vm) tab
              in case look tab key of
                   None \<Rightarrow> (Inr ei, vm\<lparr>kvCache := c1\<rparr>)
                 | Some kv \<Rightarrow>
                     (let (h, c2) = cache_add c1 kv
                      in (Inr h, vm\<lparr>kvCache := c2\<rparr>))))"

definition db_find_i64 ::
  "'d vm_state \<Rightarrow> i64 \<Rightarrow> i64 \<Rightarrow> i64 \<Rightarrow> i64 \<Rightarrow> (error + i32) \<times> 'd vm_state" where
  "db_find_i64 = db_lookup tab_get"

definition db_lowerbound_i64 ::
  "'d vm_state \<Rightarrow> i64 \<Rightarrow> i64 \<Rightarrow> i64 \<Rightarrow> i64 \<Rightarrow> (error + i32) \<times> 'd vm_state" where
  "db_lowerbound_i64 = db_lookup tab_lowerbound"

definition db_upperbound_i64 ::
  "'d vm_state \<Rightarrow> i64 \<Rightarrow> i64 \<Rightarrow> i64 \<Rightarrow> i64 \<Rightarrow> (error + i32) \<times> 'd vm_state" where
  "db_upperbound_i64 = db_lookup tab_upperbound"

definition db_end_i64 ::
  "'d vm_state \<Rightarrow> i64 \<Rightarrow> i64 \<Rightarrow> i64 \<Rightarrow> (error + i32) \<times> 'd vm_state" where
  "db_end_i64 vm code_i scope_i table_i =
     (case findTable vm (convertToUnsigned code_i) (convertToUnsigned scope_i)
             (convertToUnsigned table_i) of
        None \<Rightarrow> (Inr (- 1), vm)
      | Some tab \<Rightarrow>
          (let (ei, c1) = cacheTable (kvCache vm) tab
           in (Inr ei, vm\<lparr>kvCache := c1\<rparr>)))"

section \<open>The 256-bit secondary index (lines 847-881, 1454-1470, 1616-1635)\<close>

text \<open>
  \<open>db_idx256_store\<close> and \<open>db_idx256_find_primary\<close> call \<open>genericIndex.store\<close> and
  \<open>genericIndex.find_primary\<close> with the index \<open>bc.store.idx256\<close>, the cache
  \<open>this.idx256\<close>, a 32-byte view on the guest memory and the \<open>checksum256\<close>
  converter; the bodies of the generic functions are written out for these arguments.
  The view is taken before the generic function is entered. \<open>conv.to\<close> writes through
  the view into the guest memory.
\<close>

definition db_idx256_store ::
  "'d vm_state \<Rightarrow> i64 \<Rightarrow> i64 \<Rightarrow> i64 \<Rightarrow> i64 \<Rightarrow> ptr \<Rightarrow> i32 \<Rightarrow> (error + i32) \<times> 'd vm_state" where
  "db_idx256_store vm scope_i table_i payer_i id_i dat data_len =
     (let sc = convertToUnsigned scope_i;
          tb = convertToUnsigned table_i;
          pay = convertToUnsigned payer_i;
          key = convertToUnsigned id_i
      in case mem_read (memory vm) dat 32 of
           Inl e \<Rightarrow> (Inl e, vm)
         | Inr secondary \<Rightarrow>
             if pay = 0
             then (Inl (Error ''must specify a valid account to pay for new record'' []), vm)
             else
               (let (tab, vm1) =
                      findOrCreateTable vm (acc_name (receiver (cur_context vm))) sc tb pay;
                    obj = \<lparr>idx_tableId = tab_id tab, idx_primaryKey = key,
                           secondaryKey = checksum256_from secondary, idx_payer = pay\<rparr>;
                    vm2 = vm1\<lparr>bc := (bc vm1)
                             \<lparr>store := (store (bc vm1))
                                \<lparr>store_idx256 :=
                                   idx_set (store_idx256 (store (bc vm1))) None obj\<rparr>\<rparr>\<rparr>;
                    (ei, c1) = cacheTable (idx256 vm2) tab;
                    (h, c2) = cache_add c1 obj
                in (Inr h, vm2\<lparr>idx256 := c2\<rparr>)))"

definition db_idx256_find_primary ::
  "'d vm_state \<Rightarrow> i64 \<Rightarrow> i64 \<Rightarrow> i64 \<Rightarrow> ptr \<Rightarrow> i32 \<Rightarrow> i64 \<Rightarrow> (error + i32) \<times> 'd vm_state" where
  "db_idx256_find_primary vm code_i scope_i table_i dat data_len primary_i =
     (let cd = convertToUnsigned code_i;
          sc = convertToUnsigned scope_i;
          tb = convertToUnsigned table_i;
          pk = convertToUnsigned primary_i
      in case mem_read (memory vm) dat 32 of
           Inl e \<Rightarrow> (Inl e, vm)
         | Inr secondary \<Rightarrow>
             (case findTable vm cd sc tb of
                None \<Rightarrow> (Inr (- 1), vm)
              | Some tab \<Rightarrow>
                  (let (ei, c1) = cacheTable (idx256 vm) tab
                   in case idx_get (store_idx256 (store (bc vm))) (tab_id tab) pk of
                        None \<Rightarrow> (Inr ei, vm\<lparr>idx256 := c1\<rparr>)
                      | Some obj \<Rightarrow>
                          (case checksum256_to secondary (secondaryKey obj) of
                             Inl e \<Rightarrow> (Inl e, vm\<lparr>idx256 := c1\<rparr>)
                           | Inr written \<Rightarrow>
                               (case mem_write (memory vm) dat 32 written of
                                  Inl e \<Rightarrow> (Inl e, vm\<lparr>idx256 := c1\<rparr>)
                                | Inr m \<Rightarrow>
                                    (let (h, c2) = cache_add c1 obj
                                     in (Inr h, vm\<lparr>memory := m, idx256 := c2\<rparr>)))))))"

section \<open>Dispatch of one action (lines 1638-1687)\<close>

definition eosio_code :: name where
  "eosio_code = 0x5530ea01144a8000"

definition eosio_exit :: "'d vm_state \<Rightarrow> i32 \<Rightarrow> (error + unit) \<times> 'd vm_state" where
  "eosio_exit vm code = (Inl (EosioExitResult code), vm)"

definition finalize :: "'d vm_state \<Rightarrow> 'd vm_state" where
  "finalize vm =
     vm\<lparr>kvCache := empty_cache, idx64 := empty_cache, idx128 := empty_cache,
        idx256 := empty_cache, idxDouble := empty_cache\<rparr>"

text \<open>
  The five caches as the field initialisers (lines 96-100) and \<open>finalize\<close> leave them.
\<close>

definition caches_empty :: "'d vm_state \<Rightarrow> bool" where
  "caches_empty vm =
     (kvCache vm = empty_cache \<and> idx64 vm = empty_cache \<and> idx128 vm = empty_cache
      \<and> idx256 vm = empty_cache \<and> idxDouble vm = empty_cache)"

text \<open>
  The authorization loop at the head of \<open>apply\<close>. \<open>isAuthoritySatisfied\<close> is external,
  the parameter \<open>sat\<close>.
\<close>

fun check_authorization ::
  "(authority \<Rightarrow> permission_level \<Rightarrow> bool) \<Rightarrow> 'd vm_state \<Rightarrow> permission_level list \<Rightarrow>
   error + unit" where
  "check_authorization sat vm [] = Inr ()"
| "check_authorization sat vm (auth # rest) =
     (case getAccount (bc vm) (actor auth) of
        None \<Rightarrow> Inl (Error ''Account is missing for inline action'' [actor auth])
      | Some acct \<Rightarrow>
          (case find (\<lambda>p. perm_name p = permission auth) (permissions acct) of
             None \<Rightarrow> Inl (Error ''Account has no permission'' [actor auth, permission auth])
           | Some accountPermission \<Rightarrow>
               if isInline (cur_context vm)
                  \<and> \<not> sat (required_auth accountPermission)
                        \<lparr>actor = sender (cur_context vm), permission = eosio_code\<rparr>
               then Inl (Error ''Permission is not satisfied by eosio.code''
                           [actor auth, perm_name accountPermission,
                            acc_name (receiver (cur_context vm))])
               else check_authorization sat vm rest))"

text \<open>
  \<open>apply\<close>. The guest's \<open>apply\<close> export is the parameter \<open>guest\<close>: given the receiver,
  the first receiver and the action name it transforms the state (through the host
  functions) and returns normally or throws; \<open>eosio_exit\<close> makes it throw the
  \<open>EosioExitResult\<close> sentinel. The \<open>catch\<close> clause rethrows, the \<open>finally\<close> clause runs
  \<open>finalize\<close>.
\<close>

definition vm_apply ::
  "(authority \<Rightarrow> permission_level \<Rightarrow> bool) \<Rightarrow>
   (name \<Rightarrow> name \<Rightarrow> name \<Rightarrow> 'd vm_state \<Rightarrow> (error + unit) \<times> 'd vm_state) \<Rightarrow>
   'd vm_state \<Rightarrow> 'd vm_context \<Rightarrow> (error + unit) \<times> 'd vm_state" where
  "vm_apply sat guest vm ctx =
     (let vm1 = vm\<lparr>cur_context := ctx\<rparr>
      in case check_authorization sat vm1 (authorization ctx) of
           Inl e \<Rightarrow> (Inl e, vm1)
         | Inr u \<Rightarrow>
             (let (r, vm2) = guest (acc_name (receiver ctx)) (acc_name (firstReceiver ctx))
                                (action ctx) vm1
              in (r, finalize vm2)))"


section \<open>A small chain state, used to run the functions on concrete inputs\<close>

text \<open>
  Three accounts: \<open>alice\<close> and \<open>bob\<close> are contracts declaring the action \<open>transfer\<close>,
  \<open>carol\<close> has no code. \<open>alice\<close> owns the table (alice, alice, accounts) with the rows
  of primary keys 1 and 5. The running action is \<open>alice::transfer\<close>, authorized by
  \<open>alice@active\<close>, and has already fetched both rows: their handles are 0 and 1 and the
  end iterator of the table is -2.
\<close>

definition ex_alice :: account where
  "ex_alice =
     \<lparr>acc_name = 0x345c850000000000, wasm = Some [0, 0x61, 0x73, 0x6d], isContract = True,
      actions = [0xcdcd3c2d57000000], codeSequence = 1,
      permissions = [\<lparr>perm_name = 0x3232eda800000000,
                       required_auth = \<lparr>threshold = 1, auth_accounts = []\<rparr>\<rparr>]\<rparr>"

definition ex_bob :: account where
  "ex_bob =
     \<lparr>acc_name = 0x3d0e000000000000, wasm = Some [0, 0x61, 0x73, 0x6d], isContract = True,
      actions = [0xcdcd3c2d57000000], codeSequence = 1,
      permissions = [\<lparr>perm_name = 0x3232eda800000000,
                       required_auth = \<lparr>threshold = 1, auth_accounts = []\<rparr>\<rparr>]\<rparr>"

definition ex_carol :: account where
  "ex_carol =
     \<lparr>acc_name = 0x41af488000000000, wasm = None, isContract = False,
      actions = [], codeSequence = 0,
      permissions = [\<lparr>perm_name = 0x3232eda800000000,
                       required_auth = \<lparr>threshold = 1, auth_accounts = []\<rparr>\<rparr>]\<rparr>"

definition ex_context :: "unit vm_context" where
  "ex_context =
     Context 0 (Some 0) ex_alice ex_alice 0xcdcd3c2d57000000 [1, 2, 3]
       [\<lparr>actor = 0x345c850000000000, permission = 0x3232eda800000000\<rparr>] [] [] None"

definition ex_row1 :: KeyValueObject where
  "ex_row1 = \<lparr>tableId = 0, primaryKey = 1, payer = 0x345c850000000000, kv_value = [7]\<rparr>"

definition ex_row5 :: KeyValueObject where
  "ex_row5 = \<lparr>tableId = 0, primaryKey = 5, payer = 0x345c850000000000, kv_value = [9]\<rparr>"

definition ex_table :: Table where
  "ex_table =
     \<lparr>tab_id = 0, tab_code = 0x345c850000000000, tab_scope = 0x345c850000000000,
      tab_table = 0x32114d4f38000000, tab_rows = [ex_row1, ex_row5]\<rparr>"

definition ex_bc :: "unit Blockchain" where
  "ex_bc =
     \<lparr>accounts = [ex_alice, ex_bob, ex_carol],
      store = \<lparr>tables = [ex_table], next_table_id = 1, store_idx64 = [], store_idx128 = [],
               store_idx256 = [], store_idxDouble = []\<rparr>,
      actionTraces = []\<rparr>"

definition ex_vm :: "unit vm_state" where
  "ex_vm =
     \<lparr>cur_context = ex_context,
      kvCache = \<lparr>endIteratorToTable = [0], iteratorToObject = [Some ex_row1, Some ex_row5]\<rparr>,
      idx64 = empty_cache, idx128 = empty_cache, idx256 = empty_cache,
      idxDouble = empty_cache,
      bc = ex_bc,
      memory = replicate 64 0\<rparr>"


text \<open>The same state before any row was stored: the table is empty and no row is cached.\<close>

definition ex_vm_empty :: "unit vm_state" where
  "ex_vm_empty =
     ex_vm\<lparr>kvCache := \<lparr>endIteratorToTable = [0], iteratorToObject = []\<rparr>,
           bc := ex_bc\<lparr>store := (store ex_bc)\<lparr>tables := [ex_table\<lparr>tab_rows := []\<rparr>]\<rparr>\<rparr>\<rparr>"

text \<open>
  The first state as \<open>apply\<close> finds it on entry: the rows are in the store and the
  caches are empty.
\<close>

definition ex_vm_fresh :: "unit vm_state" where
  "ex_vm_fresh = ex_vm\<lparr>kvCache := empty_cache\<rparr>"

text \<open>The first state with the bytes 0, 1, ..., 63 in the guest memory.\<close>

definition ex_vm_bytes :: "unit vm_state" where
  "ex_vm_bytes = ex_vm\<lparr>memory := map of_nat [0..<64]\<rparr>"

text \<open>
  A guest that returns at once, an authority check that accepts everything, and an
  action authorized by an account that does not exist.
\<close>

definition ex_guest ::
  "name \<Rightarrow> name \<Rightarrow> name \<Rightarrow> unit vm_state \<Rightarrow> (error + unit) \<times> unit vm_state" where
  "ex_guest r f a vm = (Inr (), vm)"

definition ex_sat :: "authority \<Rightarrow> permission_level \<Rightarrow> bool" where
  "ex_sat a l = True"

definition ex_context_unknown_actor :: "unit vm_context" where
  "ex_context_unknown_actor =
     Context 0 (Some 1) ex_alice ex_alice 0xcdcd3c2d57000000 []
       [\<lparr>actor = 0x49b6a00000000000, permission = 0x3232eda800000000\<rparr>] [] [] None"

text \<open>
  Stand-ins for the external decoders: the decoded action goes to the given account and
  action name, is authorized by \<open>alice@active\<close> and carries the bytes as its data;
  the action data decode for an action the contract's ABI declares and are refused for
  any other.
\<close>

definition ex_decode :: "name \<Rightarrow> name \<Rightarrow> byte list \<Rightarrow> error + decoded_action" where
  "ex_decode target act_nm bytes =
     Inr \<lparr>act_account = target, act_name = act_nm,
          act_authorization = [\<lparr>actor = 0x345c850000000000, permission = 0x3232eda800000000\<rparr>],
          act_data = bytes\<rparr>"

definition ex_decodeData :: "account \<Rightarrow> decoded_action \<Rightarrow> error + unit" where
  "ex_decodeData contract da =
     (if act_name da \<in> set (actions contract) then Inr ()
      else Inl (Error ''Action does not exist in provided ABI'' [act_name da]))"

text \<open>
  Two more guests: one stores the row of primary key 7 in the table (alice, alice,
  accounts) and then calls \<open>eosio_exit(0)\<close>; one looks the key 1 up and then fails an
  assertion.
\<close>

definition ex_guest_store_exit ::
  "name \<Rightarrow> name \<Rightarrow> name \<Rightarrow> unit vm_state \<Rightarrow> (error + unit) \<times> unit vm_state" where
  "ex_guest_store_exit r f a vm =
     (case db_store_i64 vm 3773036822876127232 3607749779137757184 3773036822876127232 7 0 4 of
        (Inl e, vm') \<Rightarrow> (Inl e, vm')
      | (Inr h, vm') \<Rightarrow> eosio_exit vm' 0)"

definition ex_guest_find_assert ::
  "name \<Rightarrow> name \<Rightarrow> name \<Rightarrow> unit vm_state \<Rightarrow> (error + unit) \<times> unit vm_state" where
  "ex_guest_find_assert r f a vm =
     (case db_find_i64 vm 3773036822876127232 3773036822876127232 3607749779137757184 1 of
        (Inl e, vm') \<Rightarrow> (Inl e, vm')
      | (Inr h, vm') \<Rightarrow> (Inl (Error ''assertion failure'' []), vm'))"

section \<open>Properties\<close>

subsection \<open>Authorization\<close>

lemma hasAuth_loop_iff:
  "hasAuth_loop n auths \<longleftrightarrow>
     (\<exists>a \<in> set auths. actor a = n \<and> (permission a = active \<or> permission a = owner))"
  by (induction auths) auto

text \<open>
  C7. \<open>require_auth(name)\<close> succeeds exactly when some entry of the current context's
  authorization list has the actor \<open>name\<close> (read as an unsigned 64-bit value) and the
  permission \<open>active\<close> or \<open>owner\<close>, and raises an error otherwise; \<open>has_auth(name)\<close>
  is a total boolean function whose value is exactly that condition.
\<close>

theorem require_auth_has_auth:
  "(require_auth ctx n = Inr () \<longleftrightarrow>
      (\<exists>a \<in> set (authorization ctx). actor a = convertToUnsigned n
          \<and> (permission a = active \<or> permission a = owner)))
   \<and> (require_auth ctx n \<noteq> Inr () \<longleftrightarrow>
        require_auth ctx n = Inl (Error ''missing required authority '' [convertToUnsigned n]))
   \<and> (has_auth ctx n \<longleftrightarrow>
      (\<exists>a \<in> set (authorization ctx). actor a = convertToUnsigned n
          \<and> (permission a = active \<or> permission a = owner)))"
  by (simp add: require_auth_def has_auth_def assert_def hasAuth_loop_iff Let_def)

subsection \<open>The pairing check\<close>

lemma eip197_result_length: "length (eip197_result b) = 32"
  by (simp add: eip197_result_def)

lemma eip197_result_last: "last (eip197_result b) = (if b then 1 else 0)"
  by (simp add: eip197_result_def)

lemma nth_31_last: "length xs = 32 \<Longrightarrow> xs ! 31 = last xs"
  by (cases xs rule: rev_cases) (simp_all add: nth_append)

text \<open>
  C1, as the code has it. When the view on the guest memory is in range,
  \<open>alt_bn128_pair\<close> returns -1 if the pairing primitive throws or yields a result that is
  not 32 bytes long; otherwise it returns 1 if the last byte of the result is zero and 0
  if it is not. With the EIP-197 result of the primitive (last byte 1 exactly when the
  pairing product equals the identity) the function returns 0 when the product equals
  the identity and 1 when it does not.
\<close>

theorem alt_bn128_pair_result:
  assumes "mem_read mem p l = Inr pairsRaw"
  shows "alt_bn128_pair pairing mem p l =
           Inr (case pairing pairsRaw of
                  Inl e \<Rightarrow> - 1
                | Inr result \<Rightarrow>
                    if length result \<noteq> 32 then - 1 else if last result = 0 then 1 else 0)
       \<and> (\<forall>b. pairing pairsRaw = Inr (eip197_result b) \<longrightarrow>
             alt_bn128_pair pairing mem p l = Inr (if b then 0 else 1))"
proof -
  have first: "alt_bn128_pair pairing mem p l =
           Inr (case pairing pairsRaw of
                  Inl e \<Rightarrow> - 1
                | Inr result \<Rightarrow>
                    if length result \<noteq> 32 then - 1 else if last result = 0 then 1 else 0)"
    using assms by (auto simp: alt_bn128_pair_def nth_31_last split: sum.splits)
  then show ?thesis
    by (auto simp: eip197_result_length eip197_result_last)
qed

theorem alt_bn128_pair_result_witness:
  "alt_bn128_pair (\<lambda>x. Inr (eip197_result False)) [] 0 0 = Inr 1
   \<and> alt_bn128_pair (\<lambda>x. Inl TypeError) [] 0 0 = Inr (- 1)
   \<and> alt_bn128_pair (\<lambda>x. Inr []) [] 0 0 = Inr (- 1)"
proof -
  have m: "mem_read [] 0 0 = Inr []"
    by (simp add: mem_read_def mem_view_ok_def)
  show ?thesis
    using alt_bn128_pair_result [OF m, of "\<lambda>x. Inr (eip197_result False)"]
      alt_bn128_pair_result [OF m, of "\<lambda>x. Inl TypeError"]
      alt_bn128_pair_result [OF m, of "\<lambda>x. Inr []"]
    by (simp add: eip197_result_length eip197_result_last)
qed

text \<open>
  C1 as stated fails: on the empty list of pairs the pairing product is the identity and
  the EIP-197 result is 1, yet \<open>alt_bn128_pair\<close> returns 0, not 1.
\<close>

theorem alt_bn128_pair_identity_counterexample:
  "alt_bn128_pair (\<lambda>x. Inr (eip197_result True)) [] 0 0 = Inr 0
   \<and> alt_bn128_pair (\<lambda>x. Inr (eip197_result True)) [] 0 0 \<noteq> Inr 1"
  by (simp add: alt_bn128_pair_def mem_read_def mem_view_ok_def eip197_result_def nth_append)

subsection \<open>The code hash\<close>

lemmas ex_defs =
  ex_vm_def ex_bc_def ex_table_def ex_row1_def ex_row5_def ex_context_def
  ex_alice_def ex_bob_def ex_carol_def empty_cache_def

lemma varuint32_bytes_0: "varuint32_bytes 0 = [0]"
  by simp

lemma encode_code_hash_result_cases:
  "encode_code_hash_result (code_hash_object sha256 b a v) =
     (if v < 0 then Inl (Error ''Number underflows varuint32'' [])
      else if 2 ^ 64 \<le> code_sequence (code_hash_object sha256 b a v)
      then Inl (Error ''Number overflows uint64'' [])
      else Inr ([0] @ u64_le_bytes (of_nat (code_sequence (code_hash_object sha256 b a v)))
                @ code_hash (code_hash_object sha256 b a v) @ [0, 0]))"
proof (cases "v < 0")
  case True
  then show ?thesis
    by (simp add: encode_code_hash_result_def code_hash_object_def Let_def)
next
  case False
  then have "min 0 v = 0" by simp
  then have sv: "struct_version (code_hash_object sha256 b a v) = 0"
    and vt: "vm_type (code_hash_object sha256 b a v) = 0"
    and vv: "vm_version (code_hash_object sha256 b a v) = 0"
    by (simp_all add: code_hash_object_def Let_def)
  from False show ?thesis
    by (simp add: encode_code_hash_result_def sv vt vv del: varuint32_bytes.simps
          add: varuint32_bytes_0)
qed

lemma get_code_hash_throws:
  "encode (code_hash_object sha256 (bc vm) a v) = Inl e \<Longrightarrow>
     get_code_hash sha256 encode vm a v p = (Inl e, vm)"
  by (simp add: get_code_hash_def)

lemma get_code_hash_packs:
  "encode (code_hash_object sha256 (bc vm) a v) = Inr arr \<Longrightarrow>
     get_code_hash sha256 encode vm a v p =
       (if \<not> mem_view_ok (memory vm) p (int (length arr)) then (Inl RangeError, vm)
        else (Inr (int (length arr)),
              vm\<lparr>memory := take (nat p) (memory vm) @ arr
                               @ drop (nat p + length arr) (memory vm)\<rparr>))"
  by (simp add: get_code_hash_def mem_write_def)

text \<open>
  C8, as the code has it. \<open>get_code_hash\<close> hands the serializer an object whose
  \<open>struct_version\<close> is \<open>min 0 v\<close>. For every non-negative \<open>v\<close> that is 0, and the
  result is serialized (the code sequence being below \<open>2^64\<close> and the packed bytes
  fitting the guest memory at the result pointer): the packed bytes are the byte 0 for
  \<open>struct_version\<close>, the eight bytes of the code sequence, the code hash, which is the
  SHA-256 of the account's WASM bytes or 32 zero bytes when the account is unknown or has
  no code, and two zero bytes; they are written at the result pointer and their number
  is returned. For a negative \<open>v\<close> the object carries \<open>v\<close> itself, the serializer
  refuses it, and the call throws with the state unchanged.
\<close>

theorem get_code_hash_serializes:
  fixes vm :: "'d vm_state"
  shows "get_code_hash sha256 encode_code_hash_result vm a v p =
     (let acct = getAccount (bc vm) (convertToUnsigned a);
          cs = (case acct of None \<Rightarrow> 0 | Some x \<Rightarrow> codeSequence x);
          h = (case acct of
                 None \<Rightarrow> replicate 32 0
               | Some x \<Rightarrow> (case wasm x of None \<Rightarrow> replicate 32 0 | Some w \<Rightarrow> sha256 w));
          arr = [0] @ u64_le_bytes (of_nat cs) @ h @ [0, 0]
      in if v < 0 then (Inl (Error ''Number underflows varuint32'' []), vm)
         else if 2 ^ 64 \<le> cs then (Inl (Error ''Number overflows uint64'' []), vm)
         else if \<not> mem_view_ok (memory vm) p (int (length arr)) then (Inl RangeError, vm)
         else (Inr (int (length arr)),
               vm\<lparr>memory := take (nat p) (memory vm) @ arr
                                @ drop (nat p + length arr) (memory vm)\<rparr>))"
proof -
  let ?obj = "code_hash_object sha256 (bc vm) a v"
  have cs: "code_sequence ?obj
              = (case getAccount (bc vm) (convertToUnsigned a) of
                   None \<Rightarrow> 0 | Some x \<Rightarrow> codeSequence x)"
    and h: "code_hash ?obj
              = (case getAccount (bc vm) (convertToUnsigned a) of
                   None \<Rightarrow> replicate 32 0
                 | Some x \<Rightarrow> (case wasm x of None \<Rightarrow> replicate 32 0 | Some w \<Rightarrow> sha256 w))"
    by (simp_all add: code_hash_object_def Let_def)
  note enc = encode_code_hash_result_cases [of sha256 "bc vm" a v]
  show ?thesis
  proof (cases "v < 0")
    case True
    with enc have "encode_code_hash_result ?obj = Inl (Error ''Number underflows varuint32'' [])"
      by simp
    from get_code_hash_throws [where encode = encode_code_hash_result and p = p, OF this] True show ?thesis
      by (simp add: Let_def)
  next
    case nonneg: False
    show ?thesis
    proof (cases "2 ^ 64 \<le> code_sequence ?obj")
      case True
      with enc nonneg
      have "encode_code_hash_result ?obj = Inl (Error ''Number overflows uint64'' [])"
        by simp
      from get_code_hash_throws [where encode = encode_code_hash_result and p = p, OF this] nonneg True show ?thesis
        by (simp add: Let_def cs)
    next
      case False
      with enc nonneg
      have "encode_code_hash_result ?obj
              = Inr ([0] @ u64_le_bytes (of_nat (code_sequence ?obj)) @ code_hash ?obj @ [0, 0])"
        by simp
      from get_code_hash_packs [where encode = encode_code_hash_result and p = p, OF this] nonneg False show ?thesis
        by (simp add: Let_def cs h)
    qed
  qed
qed

theorem get_code_hash_serializes_witness:
  "get_code_hash (\<lambda>w. replicate 32 1) encode_code_hash_result ex_vm 3773036822876127232 3 0
     = (Inr 43,
        ex_vm\<lparr>memory := [0] @ u64_le_bytes 1 @ replicate 32 1 @ [0, 0] @ replicate 21 0\<rparr>)
   \<and> fst (get_code_hash (\<lambda>w. replicate 32 1) encode_code_hash_result ex_vm
            4733081447982694400 0 0) = Inr 43
   \<and> take 32 (drop 9 (memory (snd (get_code_hash (\<lambda>w. replicate 32 1) encode_code_hash_result
        ex_vm 4733081447982694400 0 0)))) = replicate 32 0"
proof -
  have alice: "getAccount (bc ex_vm) (convertToUnsigned 3773036822876127232) = Some ex_alice"
    by (simp add: getAccount_def convertToUnsigned_def ex_defs)
  have carol: "getAccount (bc ex_vm) (convertToUnsigned 4733081447982694400) = Some ex_carol"
    by (simp add: getAccount_def convertToUnsigned_def ex_defs)
  have mem: "memory ex_vm = replicate 64 0"
    by (simp add: ex_vm_def)
  have len: "length (u64_le_bytes x) = 8" for x
    by (simp add: u64_le_bytes_def)
  have tail: "drop 43 (replicate 64 (0 :: byte)) = replicate 21 0"
    by simp
  have zeros: "take 32 (drop 9 ([0] @ u64_le_bytes 0 @ replicate 32 0 @ [0, 0]
                 @ replicate 21 (0 :: byte))) = replicate 32 0"
    by (simp add: len)
  from get_code_hash_serializes
         [of "\<lambda>w. replicate 32 1" ex_vm 3773036822876127232 3 0] alice
  have w1: "get_code_hash (\<lambda>w. replicate 32 1) encode_code_hash_result ex_vm
              3773036822876127232 3 0
     = (Inr 43,
        ex_vm\<lparr>memory := [0] @ u64_le_bytes 1 @ replicate 32 1 @ [0, 0] @ replicate 21 0\<rparr>)"
    by (simp add: Let_def mem_view_ok_def mem len tail ex_alice_def)
  from get_code_hash_serializes
         [of "\<lambda>w. replicate 32 1" ex_vm 4733081447982694400 0 0] carol
  have w2: "get_code_hash (\<lambda>w. replicate 32 1) encode_code_hash_result ex_vm
              4733081447982694400 0 0
     = (Inr 43,
        ex_vm\<lparr>memory := [0] @ u64_le_bytes 0 @ replicate 32 0 @ [0, 0] @ replicate 21 0\<rparr>)"
    by (simp add: Let_def mem_view_ok_def mem len tail ex_carol_def)
  from w1 w2 zeros show ?thesis
    by simp
qed

text \<open>
  C8 as stated fails for a negative version: at \<open>v = -1\<close> the object built for the
  serializer has the \<open>struct_version\<close> -1, the serializer refuses it, and nothing is
  serialized or written.
\<close>

theorem get_code_hash_negative_version_counterexample:
  "struct_version (code_hash_object (\<lambda>w. replicate 32 1) (bc ex_vm) 3773036822876127232 (- 1))
     = - 1
   \<and> get_code_hash (\<lambda>w. replicate 32 1) encode_code_hash_result ex_vm
        3773036822876127232 (- 1) 0
       = (Inl (Error ''Number underflows varuint32'' []), ex_vm)"
  by (simp add: get_code_hash_def encode_code_hash_result_def code_hash_object_def Let_def)

subsection \<open>Lists, tables and the store\<close>

lemma find_Some_P: "find P xs = Some x \<Longrightarrow> P x"
  by (induction xs) (auto split: if_splits)

lemma find_append_None: "find P xs = None \<Longrightarrow> find P (xs @ ys) = find P ys"
  by (induction xs) (auto split: if_splits)

lemma find_map_replace:
  assumes "find P xs = Some t" and "P t'" and "Q t"
  shows "find P (map (\<lambda>x. if Q x then t' else x) xs) = Some t'"
  using assms by (induction xs) (auto split: if_splits)

lemma find_filter_other_key:
  "k' \<noteq> k \<Longrightarrow>
     find (\<lambda>r. primaryKey r = k') (filter (\<lambda>x. primaryKey x \<noteq> k) xs)
       = find (\<lambda>r. primaryKey r = k') xs"
  by (induction xs) auto

lemma tab_get_set_same: "primaryKey r = k \<Longrightarrow> tab_get (tab_set t k r) k = Some r"
  by (simp add: tab_get_def tab_set_def)

lemma tab_get_set_other:
  "primaryKey r = k \<Longrightarrow> k' \<noteq> k \<Longrightarrow> tab_get (tab_set t k r) k' = tab_get t k'"
  by (simp add: tab_get_def tab_set_def find_filter_other_key)

lemma least_row_None: "least_row xs = None \<longleftrightarrow> xs = []"
  by (induction xs) (auto split: option.splits)

lemma greatest_row_None: "greatest_row xs = None \<longleftrightarrow> xs = []"
  by (induction xs) (auto split: option.splits)

lemma greatest_row_Some:
  "greatest_row xs = Some m \<Longrightarrow>
     m \<in> set xs \<and> (\<forall>r \<in> set xs. primaryKey r \<le> primaryKey m)"
proof (induction xs arbitrary: m)
  case Nil
  then show ?case by simp
next
  case (Cons x xs)
  show ?case
  proof (cases "greatest_row xs")
    case None
    then have "xs = []" by (simp add: greatest_row_None)
    with Cons.prems show ?thesis by simp
  next
    case (Some g)
    from Cons.IH [OF Some]
    have g: "g \<in> set xs" "\<forall>r \<in> set xs. primaryKey r \<le> primaryKey g"
      by auto
    show ?thesis
    proof (cases "primaryKey g \<le> primaryKey x")
      case True
      with Some Cons.prems have "m = x" by simp
      with g True show ?thesis by auto
    next
      case False
      with Some Cons.prems have "m = g" by simp
      with g False show ?thesis by auto
    qed
  qed
qed

lemma tab_get_None: "tab_get T k = None \<longleftrightarrow> (\<forall>r \<in> set (tab_rows T). primaryKey r \<noteq> k)"
  by (auto simp: tab_get_def find_None_iff)

lemma tab_lowerbound_None:
  "tab_lowerbound T k = None \<longleftrightarrow> (\<forall>r \<in> set (tab_rows T). primaryKey r < k)"
  by (auto simp: tab_lowerbound_def least_row_None filter_empty_conv not_le)

lemma tab_upperbound_None:
  "tab_upperbound T k = None \<longleftrightarrow> (\<forall>r \<in> set (tab_rows T). primaryKey r \<le> k)"
  by (auto simp: tab_upperbound_def least_row_None filter_empty_conv not_less)

lemma findTable_after_update:
  assumes "store_findTable st c sc t = Some tab"
    and "tab_id tab' = tab_id tab" and "tab_code tab' = tab_code tab"
    and "tab_scope tab' = tab_scope tab" and "tab_table tab' = tab_table tab"
  shows "store_findTable (update_table st tab') c sc t = Some tab'"
proof -
  let ?P = "\<lambda>x. tab_code x = c \<and> tab_scope x = sc \<and> tab_table x = t"
  have f: "find ?P (tables st) = Some tab"
    using assms(1) by (simp add: store_findTable_def)
  then have "?P tab" by (rule find_Some_P)
  then have "?P tab'" using assms by simp
  from find_map_replace [OF f this, of "\<lambda>x. tab_id x = tab_id tab'"] assms(2)
  show ?thesis by (simp add: store_findTable_def update_table_def)
qed

lemma findOrCreateTable_found:
  assumes a: "findOrCreateTable vm c sc t pay = (tab, vm1)"
  shows "store_findTable (store (bc vm1)) c sc t = Some tab
     \<and> tab_code tab = c \<and> tab_scope tab = sc \<and> tab_table tab = t
     \<and> memory vm1 = memory vm \<and> kvCache vm1 = kvCache vm \<and> cur_context vm1 = cur_context vm
     \<and> (case store_findTable (store (bc vm)) c sc t of
          Some tb \<Rightarrow> tab = tb \<and> vm1 = vm
        | None \<Rightarrow> tab_rows tab = [])"
proof (cases "store_findTable (store (bc vm)) c sc t")
  case None
  with a show ?thesis
    by (auto simp add: findOrCreateTable_def createTable_def store_findTable_def
          find_append_None Let_def)
next
  case (Some tb)
  then have "tab_code tb = c \<and> tab_scope tb = sc \<and> tab_table tb = t"
    by (auto simp add: store_findTable_def dest: find_Some_P)
  with Some a show ?thesis
    by (auto simp add: findOrCreateTable_def)
qed

subsection \<open>The iterator cache\<close>

lemma index_of_Some: "index_of x xs = Some i \<Longrightarrow> i < length xs \<and> xs ! i = x"
  by (induction xs arbitrary: i) (auto split: if_splits)

lemma index_of_append_new: "index_of x xs = None \<Longrightarrow> index_of x (xs @ [x]) = Some (length xs)"
  by (induction xs) (auto split: if_splits)

lemma end_iterator_lt: "getEndIteratorByTableId c i = Inr e \<Longrightarrow> e < - 1"
  by (auto simp: getEndIteratorByTableId_def indexToEndIterator_def split: option.splits)

lemma cache_get_nonneg: "cache_get c h = Inr kv \<Longrightarrow> 0 \<le> h"
  by (auto simp: cache_get_def split: if_splits)

lemma cache_get_add_new: "cache_get (snd (cache_add c obj)) (fst (cache_add c obj)) = Inr obj"
  by (simp add: cache_get_def cache_add_def)

lemma cache_get_fresh:
  "cache_get c (int (length (iteratorToObject c))) = Inl (Error ''iterator out of range'' [])"
  by (simp add: cache_get_def)

lemma cacheTable_objs: "iteratorToObject (snd (cacheTable c tab)) = iteratorToObject c"
  by (simp add: cacheTable_def split: option.splits)

lemma cacheTable_end:
  "cacheTable c tab = (ei, c1) \<Longrightarrow> getEndIteratorByTableId c1 (tab_id tab) = Inr ei"
  by (auto simp: cacheTable_def getEndIteratorByTableId_def index_of_append_new
           split: option.splits)

lemma findTableByEndIterator_of_end:
  "getEndIteratorByTableId c i = Inr e \<Longrightarrow> findTableByEndIterator c st e = getTableById st i"
  by (auto simp: getEndIteratorByTableId_def findTableByEndIterator_def indexToEndIterator_def
             Let_def
           dest: index_of_Some split: option.splits)

subsection \<open>Storing a row\<close>

lemma db_store_i64_success:
  fixes vm :: "'d vm_state"
  assumes pay: "convertToUnsigned payer_i \<noteq> 0"
    and nodup: "\<forall>tab. findTable vm (acc_name (receiver (cur_context vm)))
                        (convertToUnsigned scope_i) (convertToUnsigned table_i) = Some tab
                      \<longrightarrow> \<not> tab_has tab (convertToUnsigned id_i)"
    and mem: "mem_view_ok (memory vm) dat len"
  shows "\<exists>vm' tab'.
        db_store_i64 vm scope_i table_i payer_i id_i dat len
          = (Inr (int (length (iteratorToObject (kvCache vm)))), vm')
      \<and> cache_get (kvCache vm') (int (length (iteratorToObject (kvCache vm))))
          = Inr \<lparr>tableId = tab_id tab', primaryKey = convertToUnsigned id_i,
                 payer = convertToUnsigned payer_i,
                 kv_value = take (nat len) (drop (nat dat) (memory vm))\<rparr>
      \<and> findTable vm' (acc_name (receiver (cur_context vm)))
            (convertToUnsigned scope_i) (convertToUnsigned table_i) = Some tab'
      \<and> tab_get tab' (convertToUnsigned id_i)
          = Some \<lparr>tableId = tab_id tab', primaryKey = convertToUnsigned id_i,
                  payer = convertToUnsigned payer_i,
                  kv_value = take (nat len) (drop (nat dat) (memory vm))\<rparr>"
proof -
  let ?c = "acc_name (receiver (cur_context vm))"
  let ?sc = "convertToUnsigned scope_i" and ?tb = "convertToUnsigned table_i"
  let ?pay = "convertToUnsigned payer_i" and ?key = "convertToUnsigned id_i"
  obtain tab vm1 where foc: "findOrCreateTable vm ?c ?sc ?tb ?pay = (tab, vm1)"
    by (cases "findOrCreateTable vm ?c ?sc ?tb ?pay")
  note F = findOrCreateTable_found [OF foc]
  have nohas: "\<not> tab_has tab ?key"
  proof (cases "store_findTable (store (bc vm)) ?c ?sc ?tb")
    case None
    with F have "tab_rows tab = []" by simp
    then show ?thesis by (simp add: tab_has_def tab_get_def)
  next
    case (Some tb)
    with F have "tab = tb" by simp
    with Some nodup show ?thesis by (simp add: findTable_def)
  qed
  let ?kv = "\<lparr>tableId = tab_id tab, primaryKey = ?key, payer = ?pay,
              kv_value = take (nat len) (drop (nat dat) (memory vm))\<rparr>"
  let ?tab' = "tab_set tab ?key ?kv"
  let ?vm2 = "vm1\<lparr>bc := (bc vm1)\<lparr>store := update_table (store (bc vm1)) ?tab'\<rparr>\<rparr>"
  let ?c1 = "snd (cacheTable (kvCache vm1) tab)"
  let ?h = "int (length (iteratorToObject (kvCache vm)))"
  let ?c2 = "snd (cache_add ?c1 ?kv)"
  have hh: "fst (cache_add ?c1 ?kv) = ?h"
    using F by (simp add: cache_add_def cacheTable_objs)
  have res: "db_store_i64 vm scope_i table_i payer_i id_i dat len
               = (Inr ?h, ?vm2\<lparr>kvCache := ?c2\<rparr>)"
    using pay nohas mem foc F hh
    by (simp add: db_store_i64_def Let_def mem_read_def split_beta)
  have ft: "findTable (?vm2\<lparr>kvCache := ?c2\<rparr>) ?c ?sc ?tb = Some ?tab'"
    using F findTable_after_update [of "store (bc vm1)" ?c ?sc ?tb tab ?tab']
    by (simp add: findTable_def tab_set_def)
  have g: "cache_get ?c2 ?h = Inr ?kv"
    using cache_get_add_new [of ?c1 ?kv] hh by simp
  have idt: "tab_id ?tab' = tab_id tab" by (simp add: tab_set_def)
  show ?thesis
    apply (rule exI [of _ "?vm2\<lparr>kvCache := ?c2\<rparr>"], rule exI [of _ ?tab'])
    using res ft g idt
    by (simp add: tab_get_set_same)
qed

lemma db_store_i64_result:
  fixes vm :: "'d vm_state"
  shows "fst (db_store_i64 vm scope_i table_i payer_i id_i dat len) =
     (if convertToUnsigned payer_i = 0
      then Inl (Error ''must specify a valid account to pay for new record'' [])
      else if (case findTable vm (acc_name (receiver (cur_context vm)))
                      (convertToUnsigned scope_i) (convertToUnsigned table_i) of
                 None \<Rightarrow> False
               | Some tab \<Rightarrow> tab_has tab (convertToUnsigned id_i))
      then Inl (Error ''key uniqueness violation'' [])
      else if \<not> mem_view_ok (memory vm) dat len then Inl RangeError
      else Inr (int (length (iteratorToObject (kvCache vm)))))"
proof -
  let ?c = "acc_name (receiver (cur_context vm))"
  let ?sc = "convertToUnsigned scope_i" and ?tb = "convertToUnsigned table_i"
  let ?pay = "convertToUnsigned payer_i" and ?key = "convertToUnsigned id_i"
  obtain tab vm1 where foc: "findOrCreateTable vm ?c ?sc ?tb ?pay = (tab, vm1)"
    by (cases "findOrCreateTable vm ?c ?sc ?tb ?pay")
  note F = findOrCreateTable_found [OF foc]
  have has: "tab_has tab ?key \<longleftrightarrow>
               (case findTable vm ?c ?sc ?tb of None \<Rightarrow> False | Some tb \<Rightarrow> tab_has tb ?key)"
    using F by (auto simp: findTable_def tab_has_def tab_get_def split: option.splits)
  show ?thesis
  proof (cases "?pay = 0")
    case True
    then show ?thesis by (simp add: db_store_i64_def Let_def split_beta)
  next
    case pay: False
    show ?thesis
    proof (cases "tab_has tab ?key")
      case True
      with pay foc has show ?thesis by (simp add: db_store_i64_def Let_def)
    next
      case nohas: False
      show ?thesis
      proof (cases "mem_view_ok (memory vm) dat len")
        case False
        with pay nohas foc has F show ?thesis
          by (simp add: db_store_i64_def Let_def mem_read_def)
      next
        case True
        have "\<forall>t. findTable vm ?c ?sc ?tb = Some t \<longrightarrow> \<not> tab_has t ?key"
          using has nohas by (auto split: option.splits)
        from db_store_i64_success [OF pay this True] pay has nohas True
        show ?thesis by auto
      qed
    qed
  qed
qed

text \<open>
  C5. \<open>db_store_i64\<close> fails when the payer is zero, and fails when the table (current
  receiver, scope, table) already holds a row with the primary key (with the key
  uniqueness error, unless the payer is zero as well). Otherwise (the data
  view being inside the guest memory) it returns a non-negative handle that the cache
  did not resolve before and that now resolves to the new row; afterwards the table
  exists in the store, whether or not it existed before, and holds the new row under the
  primary key.
\<close>

theorem db_store_i64_contract:
  fixes vm :: "'d vm_state"
  shows "(convertToUnsigned payer_i = 0 \<longrightarrow>
            fst (db_store_i64 vm scope_i table_i payer_i id_i dat len)
              = Inl (Error ''must specify a valid account to pay for new record'' []))
    \<and> ((\<exists>tab. findTable vm (acc_name (receiver (cur_context vm)))
                 (convertToUnsigned scope_i) (convertToUnsigned table_i) = Some tab
               \<and> tab_has tab (convertToUnsigned id_i)) \<longrightarrow>
            fst (db_store_i64 vm scope_i table_i payer_i id_i dat len)
              = Inl (Error (if convertToUnsigned payer_i = 0
                            then ''must specify a valid account to pay for new record''
                            else ''key uniqueness violation'') []))
    \<and> (convertToUnsigned payer_i \<noteq> 0
        \<and> (\<forall>tab. findTable vm (acc_name (receiver (cur_context vm)))
                 (convertToUnsigned scope_i) (convertToUnsigned table_i) = Some tab
               \<longrightarrow> \<not> tab_has tab (convertToUnsigned id_i))
        \<and> mem_view_ok (memory vm) dat len \<longrightarrow>
          (\<exists>h vm' tab' kv.
              db_store_i64 vm scope_i table_i payer_i id_i dat len = (Inr h, vm')
            \<and> 0 \<le> h
            \<and> (\<forall>old. cache_get (kvCache vm) h \<noteq> Inr old)
            \<and> cache_get (kvCache vm') h = Inr kv
            \<and> findTable vm' (acc_name (receiver (cur_context vm)))
                 (convertToUnsigned scope_i) (convertToUnsigned table_i) = Some tab'
            \<and> tab_get tab' (convertToUnsigned id_i) = Some kv
            \<and> kv = \<lparr>tableId = tab_id tab', primaryKey = convertToUnsigned id_i,
                     payer = convertToUnsigned payer_i,
                     kv_value = take (nat len) (drop (nat dat) (memory vm))\<rparr>))"
proof (intro conjI impI)
  assume "convertToUnsigned payer_i = 0"
  then show "fst (db_store_i64 vm scope_i table_i payer_i id_i dat len)
              = Inl (Error ''must specify a valid account to pay for new record'' [])"
    by (simp add: db_store_i64_result)
next
  assume "\<exists>tab. findTable vm (acc_name (receiver (cur_context vm)))
                 (convertToUnsigned scope_i) (convertToUnsigned table_i) = Some tab
               \<and> tab_has tab (convertToUnsigned id_i)"
  then show "fst (db_store_i64 vm scope_i table_i payer_i id_i dat len)
              = Inl (Error (if convertToUnsigned payer_i = 0
                            then ''must specify a valid account to pay for new record''
                            else ''key uniqueness violation'') [])"
    by (auto simp: db_store_i64_result)
next
  assume a: "convertToUnsigned payer_i \<noteq> 0
        \<and> (\<forall>tab. findTable vm (acc_name (receiver (cur_context vm)))
                 (convertToUnsigned scope_i) (convertToUnsigned table_i) = Some tab
               \<longrightarrow> \<not> tab_has tab (convertToUnsigned id_i))
        \<and> mem_view_ok (memory vm) dat len"
  then have pay: "convertToUnsigned payer_i \<noteq> 0"
    and nodup: "\<forall>tab. findTable vm (acc_name (receiver (cur_context vm)))
                 (convertToUnsigned scope_i) (convertToUnsigned table_i) = Some tab
               \<longrightarrow> \<not> tab_has tab (convertToUnsigned id_i)"
    and mem: "mem_view_ok (memory vm) dat len"
    by blast+
  from db_store_i64_success [OF pay nodup mem]
  show "\<exists>h vm' tab' kv.
              db_store_i64 vm scope_i table_i payer_i id_i dat len = (Inr h, vm')
            \<and> 0 \<le> h
            \<and> (\<forall>old. cache_get (kvCache vm) h \<noteq> Inr old)
            \<and> cache_get (kvCache vm') h = Inr kv
            \<and> findTable vm' (acc_name (receiver (cur_context vm)))
                 (convertToUnsigned scope_i) (convertToUnsigned table_i) = Some tab'
            \<and> tab_get tab' (convertToUnsigned id_i) = Some kv
            \<and> kv = \<lparr>tableId = tab_id tab', primaryKey = convertToUnsigned id_i,
                     payer = convertToUnsigned payer_i,
                     kv_value = take (nat len) (drop (nat dat) (memory vm))\<rparr>"
    by (auto simp: cache_get_fresh)
qed


theorem db_store_i64_contract_witness:
  "fst (db_store_i64 ex_vm 3773036822876127232 3607749779137757184 0 7 0 4)
     = Inl (Error ''must specify a valid account to pay for new record'' [])
   \<and> fst (db_store_i64 ex_vm 3773036822876127232 3607749779137757184
             3773036822876127232 5 0 4) = Inl (Error ''key uniqueness violation'' [])
   \<and> (\<exists>h vm' tab' kv.
          db_store_i64 ex_vm 3773036822876127232 3607749779137757184 3773036822876127232 7 0 4
            = (Inr h, vm')
        \<and> 0 \<le> h
        \<and> (\<forall>old. cache_get (kvCache ex_vm) h \<noteq> Inr old)
        \<and> cache_get (kvCache vm') h = Inr kv
        \<and> findTable vm' (acc_name (receiver (cur_context ex_vm)))
             (convertToUnsigned 3773036822876127232) (convertToUnsigned 3607749779137757184)
             = Some tab'
        \<and> tab_get tab' (convertToUnsigned 7) = Some kv
        \<and> kv = \<lparr>tableId = tab_id tab', primaryKey = convertToUnsigned 7,
                 payer = convertToUnsigned 3773036822876127232,
                 kv_value = take (nat 4) (drop (nat 0) (memory ex_vm))\<rparr>)"
proof -
  have tab: "findTable ex_vm (acc_name (receiver (cur_context ex_vm)))
               (convertToUnsigned 3773036822876127232) (convertToUnsigned 3607749779137757184)
             = Some ex_table"
    by (simp add: findTable_def store_findTable_def convertToUnsigned_def ex_defs)
  have zero: "convertToUnsigned 0 = 0"
    by (simp add: convertToUnsigned_def)
  have dup: "\<exists>tab. findTable ex_vm (acc_name (receiver (cur_context ex_vm)))
               (convertToUnsigned 3773036822876127232) (convertToUnsigned 3607749779137757184)
               = Some tab \<and> tab_has tab (convertToUnsigned 5)"
    using tab by (simp add: tab_has_def tab_get_def convertToUnsigned_def ex_defs)
  have fresh: "convertToUnsigned 3773036822876127232 \<noteq> 0
        \<and> (\<forall>tab. findTable ex_vm (acc_name (receiver (cur_context ex_vm)))
               (convertToUnsigned 3773036822876127232) (convertToUnsigned 3607749779137757184)
               = Some tab \<longrightarrow> \<not> tab_has tab (convertToUnsigned 7))
        \<and> mem_view_ok (memory ex_vm) 0 4"
    using tab by (simp add: tab_has_def tab_get_def convertToUnsigned_def mem_view_ok_def ex_defs)
  from db_store_i64_contract
         [of 0 ex_vm 3773036822876127232 3607749779137757184 7 0 4] zero
  have one: "fst (db_store_i64 ex_vm 3773036822876127232 3607749779137757184 0 7 0 4)
     = Inl (Error ''must specify a valid account to pay for new record'' [])"
    by blast
  from db_store_i64_contract
         [of 3773036822876127232 ex_vm 3773036822876127232 3607749779137757184 5 0 4] dup
  have "fst (db_store_i64 ex_vm 3773036822876127232 3607749779137757184
                    3773036822876127232 5 0 4)
          = Inl (Error (if convertToUnsigned 3773036822876127232 = 0
                        then ''must specify a valid account to pay for new record''
                        else ''key uniqueness violation'') [])"
    by blast
  then have two: "fst (db_store_i64 ex_vm 3773036822876127232 3607749779137757184
                    3773036822876127232 5 0 4) = Inl (Error ''key uniqueness violation'' [])"
    by (simp add: convertToUnsigned_def)
  from db_store_i64_contract
         [of 3773036822876127232 ex_vm 3773036822876127232 3607749779137757184 7 0 4] fresh
  have three: "\<exists>h vm' tab' kv.
          db_store_i64 ex_vm 3773036822876127232 3607749779137757184 3773036822876127232 7 0 4
            = (Inr h, vm')
        \<and> 0 \<le> h
        \<and> (\<forall>old. cache_get (kvCache ex_vm) h \<noteq> Inr old)
        \<and> cache_get (kvCache vm') h = Inr kv
        \<and> findTable vm' (acc_name (receiver (cur_context ex_vm)))
             (convertToUnsigned 3773036822876127232) (convertToUnsigned 3607749779137757184)
             = Some tab'
        \<and> tab_get tab' (convertToUnsigned 7) = Some kv
        \<and> kv = \<lparr>tableId = tab_id tab', primaryKey = convertToUnsigned 7,
                 payer = convertToUnsigned 3773036822876127232,
                 kv_value = take (nat 4) (drop (nat 0) (memory ex_vm))\<rparr>"
    by blast
  from one two three show ?thesis
    by blast
qed

text \<open>
  C9. When \<open>db_store_i64\<close> is called with payer 0 and the table (current receiver,
  scope, table) does not exist, the call fails with the payer error, and the state it
  leaves behind holds a new, empty table under that triple: the store is not the store
  from before the call.
\<close>

theorem db_store_i64_payer_zero_creates_table:
  fixes vm :: "'d vm_state"
  assumes "convertToUnsigned payer_i = 0"
    and "findTable vm (acc_name (receiver (cur_context vm)))
           (convertToUnsigned scope_i) (convertToUnsigned table_i) = None"
  shows "fst (db_store_i64 vm scope_i table_i payer_i id_i dat len)
           = Inl (Error ''must specify a valid account to pay for new record'' [])
       \<and> findTable (snd (db_store_i64 vm scope_i table_i payer_i id_i dat len))
            (acc_name (receiver (cur_context vm)))
            (convertToUnsigned scope_i) (convertToUnsigned table_i)
          = Some \<lparr>tab_id = next_table_id (store (bc vm)),
                  tab_code = acc_name (receiver (cur_context vm)),
                  tab_scope = convertToUnsigned scope_i,
                  tab_table = convertToUnsigned table_i, tab_rows = []\<rparr>
       \<and> tables (store (bc (snd (db_store_i64 vm scope_i table_i payer_i id_i dat len))))
          = tables (store (bc vm))
            @ [\<lparr>tab_id = next_table_id (store (bc vm)),
                 tab_code = acc_name (receiver (cur_context vm)),
                 tab_scope = convertToUnsigned scope_i,
                 tab_table = convertToUnsigned table_i, tab_rows = []\<rparr>]
       \<and> store (bc (snd (db_store_i64 vm scope_i table_i payer_i id_i dat len)))
          \<noteq> store (bc vm)"
proof -
  have parts: "fst (db_store_i64 vm scope_i table_i payer_i id_i dat len)
           = Inl (Error ''must specify a valid account to pay for new record'' [])
       \<and> findTable (snd (db_store_i64 vm scope_i table_i payer_i id_i dat len))
            (acc_name (receiver (cur_context vm)))
            (convertToUnsigned scope_i) (convertToUnsigned table_i)
          = Some \<lparr>tab_id = next_table_id (store (bc vm)),
                  tab_code = acc_name (receiver (cur_context vm)),
                  tab_scope = convertToUnsigned scope_i,
                  tab_table = convertToUnsigned table_i, tab_rows = []\<rparr>
       \<and> tables (store (bc (snd (db_store_i64 vm scope_i table_i payer_i id_i dat len))))
          = tables (store (bc vm))
            @ [\<lparr>tab_id = next_table_id (store (bc vm)),
                 tab_code = acc_name (receiver (cur_context vm)),
                 tab_scope = convertToUnsigned scope_i,
                 tab_table = convertToUnsigned table_i, tab_rows = []\<rparr>]"
    using assms
    by (simp add: db_store_i64_def Let_def findOrCreateTable_def findTable_def createTable_def
          store_findTable_def find_append_None)
  then have "tables (store (bc (snd (db_store_i64 vm scope_i table_i payer_i id_i dat len))))
          \<noteq> tables (store (bc vm))"
    by simp
  then have "store (bc (snd (db_store_i64 vm scope_i table_i payer_i id_i dat len)))
          \<noteq> store (bc vm)"
    by auto
  with parts show ?thesis
    by blast
qed

theorem db_store_i64_payer_zero_creates_table_witness:
  "fst (db_store_i64 ex_vm 4399453885987553280 3607749779137757184 0 7 0 4)
     = Inl (Error ''must specify a valid account to pay for new record'' [])
   \<and> findTable ex_vm 0x345c850000000000 0x3d0e000000000000 0x32114d4f38000000 = None
   \<and> findTable (snd (db_store_i64 ex_vm 4399453885987553280 3607749779137757184 0 7 0 4))
        0x345c850000000000 0x3d0e000000000000 0x32114d4f38000000
      = Some \<lparr>tab_id = 1, tab_code = 0x345c850000000000, tab_scope = 0x3d0e000000000000,
              tab_table = 0x32114d4f38000000, tab_rows = []\<rparr>"
proof -
  have zero: "convertToUnsigned 0 = 0"
    by (simp add: convertToUnsigned_def)
  have none: "findTable ex_vm (acc_name (receiver (cur_context ex_vm)))
               (convertToUnsigned 4399453885987553280) (convertToUnsigned 3607749779137757184)
             = None"
    by (simp add: findTable_def store_findTable_def convertToUnsigned_def ex_defs)
  have names: "acc_name (receiver (cur_context ex_vm)) = 0x345c850000000000"
    "convertToUnsigned 4399453885987553280 = 0x3d0e000000000000"
    "convertToUnsigned 3607749779137757184 = 0x32114d4f38000000"
    "next_table_id (store (bc ex_vm)) = 1"
    by (simp_all add: convertToUnsigned_def ex_defs)
  from db_store_i64_payer_zero_creates_table [OF zero none, of 7 0 4] none
  show ?thesis
    by (simp add: names)
qed


subsection \<open>Walking the primary index\<close>

lemma mem_read_write:
  "mem_write mem p len src = Inr m \<Longrightarrow> length src = nat len \<Longrightarrow> mem_read m p len = Inr src"
  by (auto simp: mem_write_def mem_read_def mem_view_ok_def split: if_splits)

lemma u64_le_bytes_length: "length (u64_le_bytes v) = 8"
  by (simp add: u64_le_bytes_def)

lemma write_and_add_ok:
  assumes "mem_view_ok (memory vm) p 8"
  shows "\<exists>vm'. write_and_add vm p kv = (Inr (int (length (iteratorToObject (kvCache vm)))), vm')
      \<and> cache_get (kvCache vm') (int (length (iteratorToObject (kvCache vm)))) = Inr kv
      \<and> mem_read (memory vm') p 8 = Inr (u64_le_bytes (primaryKey kv))"
proof -
  obtain m where m: "writeUInt64 (memory vm) p (primaryKey kv) = Inr m"
    using assms by (auto simp: writeUInt64_def mem_write_def u64_le_bytes_length)
  then have "mem_read m p 8 = Inr (u64_le_bytes (primaryKey kv))"
    by (simp add: writeUInt64_def mem_read_write u64_le_bytes_length)
  with m show ?thesis
    by (simp add: write_and_add_def cache_add_def cache_get_def)
qed

lemma next_last:
  assumes "cache_get (kvCache vm) h = Inr kv"
    and "getTableById (store (bc vm)) (tableId kv) = Some T"
    and "\<forall>r \<in> set (tab_rows T). primaryKey r \<le> primaryKey kv"
    and "getEndIteratorByTableId (kvCache vm) (tableId kv) = Inr e"
  shows "db_next_i64 vm h p = (Inr e, vm)"
proof -
  have "0 \<le> h" using assms(1) by (rule cache_get_nonneg)
  moreover have "filter (\<lambda>r. primaryKey kv < primaryKey r) (tab_rows T) = []"
    using assms(3) by (auto simp: filter_empty_conv)
  then have "tab_next T (primaryKey kv) = None" by (simp add: tab_next_def)
  ultimately show ?thesis using assms by (simp add: db_next_i64_def)
qed

lemma next_end: "it < - 1 \<Longrightarrow> db_next_i64 vm it p = (Inr (- 1), vm)"
  by (simp add: db_next_i64_def)

lemma previous_first:
  assumes "cache_get (kvCache vm) h = Inr kv"
    and "getTableById (store (bc vm)) (tableId kv) = Some T"
    and "\<forall>r \<in> set (tab_rows T). primaryKey kv \<le> primaryKey r"
  shows "db_previous_i64 vm h p = (Inr (- 1), vm)"
proof -
  have "0 \<le> h" using assms(1) by (rule cache_get_nonneg)
  moreover have "filter (\<lambda>r. primaryKey r < primaryKey kv) (tab_rows T) = []"
    using assms(3) by (auto simp: filter_empty_conv)
  then have "tab_prev T (primaryKey kv) = None" by (simp add: tab_prev_def)
  ultimately show ?thesis using assms by (simp add: db_previous_i64_def)
qed

lemma previous_end_empty:
  assumes "getEndIteratorByTableId (kvCache vm) (tab_id T) = Inr e"
    and "getTableById (store (bc vm)) (tab_id T) = Some T"
    and "tab_rows T = []"
  shows "db_previous_i64 vm e p = (Inr (- 1), vm)"
  using assms end_iterator_lt [OF assms(1)] findTableByEndIterator_of_end [OF assms(1)]
  by (simp add: db_previous_i64_def tab_penultimate_def)

lemma previous_end_last:
  assumes "getEndIteratorByTableId (kvCache vm) (tab_id T) = Inr e"
    and "getTableById (store (bc vm)) (tab_id T) = Some T"
    and "tab_rows T \<noteq> []"
    and "mem_view_ok (memory vm) p 8"
  shows "\<exists>kv h vm'. db_previous_i64 vm e p = (Inr h, vm') \<and> 0 \<le> h
           \<and> cache_get (kvCache vm') h = Inr kv
           \<and> kv \<in> set (tab_rows T) \<and> (\<forall>r \<in> set (tab_rows T). primaryKey r \<le> primaryKey kv)
           \<and> mem_read (memory vm') p 8 = Inr (u64_le_bytes (primaryKey kv))"
proof -
  obtain kv where kv: "greatest_row (tab_rows T) = Some kv"
    using assms(3) by (cases "greatest_row (tab_rows T)") (auto simp: greatest_row_None)
  from greatest_row_Some [OF kv]
  have mx: "kv \<in> set (tab_rows T)" "\<forall>r \<in> set (tab_rows T). primaryKey r \<le> primaryKey kv"
    by auto
  from write_and_add_ok [OF assms(4), of kv] obtain vm' where
    w: "write_and_add vm p kv = (Inr (int (length (iteratorToObject (kvCache vm)))), vm')"
       "cache_get (kvCache vm') (int (length (iteratorToObject (kvCache vm)))) = Inr kv"
       "mem_read (memory vm') p 8 = Inr (u64_le_bytes (primaryKey kv))"
    by blast
  have "db_previous_i64 vm e p = write_and_add vm p kv"
    using assms(2) kv end_iterator_lt [OF assms(1)] findTableByEndIterator_of_end [OF assms(1)]
    by (simp add: db_previous_i64_def tab_penultimate_def)
  with w mx show ?thesis by auto
qed

lemma lookup_missing_table:
  "findTable vm (convertToUnsigned code_i) (convertToUnsigned scope_i)
     (convertToUnsigned table_i) = None
   \<Longrightarrow> db_lookup look vm code_i scope_i table_i id_i = (Inr (- 1), vm)"
  by (simp add: db_lookup_def Let_def)

lemma lookup_no_row:
  assumes "findTable vm (convertToUnsigned code_i) (convertToUnsigned scope_i)
             (convertToUnsigned table_i) = Some T"
    and "look T (convertToUnsigned id_i) = None"
  shows "\<exists>e vm'. db_lookup look vm code_i scope_i table_i id_i = (Inr e, vm') \<and> e < - 1
           \<and> getEndIteratorByTableId (kvCache vm') (tab_id T) = Inr e"
proof -
  obtain ei c1 where c: "cacheTable (kvCache vm) T = (ei, c1)"
    by (cases "cacheTable (kvCache vm) T")
  from cacheTable_end [OF c] have e: "getEndIteratorByTableId c1 (tab_id T) = Inr ei" .
  have "db_lookup look vm code_i scope_i table_i id_i = (Inr ei, vm\<lparr>kvCache := c1\<rparr>)"
    using assms c by (simp add: db_lookup_def Let_def)
  with e end_iterator_lt [OF e] show ?thesis by simp
qed

text \<open>
  C3. The iterator conventions of the primary index. The end iterator of a table visited
  in the current action is the value \<open>getEndIteratorByTableId\<close> gives for its id.
  \<^item> \<open>db_next_i64\<close> on a handle of a row with the greatest primary key of its table
    returns the end iterator of that table, which is less than -1; on any iterator less
    than -1 it returns -1.
  \<^item> \<open>db_previous_i64\<close> on the end iterator of a table returns -1 when the table is
    empty; otherwise (the primary pointer being inside the guest memory) it returns a
    handle of a row with the greatest primary key and writes that key to the pointer.
    On a handle of a row with the least primary key it returns -1.
  \<^item> \<open>db_find_i64\<close>, \<open>db_lowerbound_i64\<close> and \<open>db_upperbound_i64\<close> on an existing
    table in which no row has the key (no row has a key at least the bound, no row has
    a key above the bound) return the end iterator of that table, which is less than
    -1; when the table does not exist they return -1.
\<close>

theorem primary_iterator_conventions:
  fixes vm :: "'d vm_state"
  shows
   "(cache_get (kvCache vm) h = Inr kv
       \<and> getTableById (store (bc vm)) (tableId kv) = Some T
       \<and> (\<forall>r \<in> set (tab_rows T). primaryKey r \<le> primaryKey kv)
       \<and> getEndIteratorByTableId (kvCache vm) (tableId kv) = Inr e
     \<longrightarrow> db_next_i64 vm h p = (Inr e, vm) \<and> e < - 1)
  \<and> (it < - 1 \<longrightarrow> db_next_i64 vm it p = (Inr (- 1), vm))
  \<and> (getEndIteratorByTableId (kvCache vm) (tab_id T') = Inr e'
       \<and> getTableById (store (bc vm)) (tab_id T') = Some T'
     \<longrightarrow> (tab_rows T' = [] \<longrightarrow> db_previous_i64 vm e' p = (Inr (- 1), vm))
       \<and> (tab_rows T' \<noteq> [] \<and> mem_view_ok (memory vm) p 8 \<longrightarrow>
            (\<exists>kv' h' vm'. db_previous_i64 vm e' p = (Inr h', vm') \<and> 0 \<le> h'
               \<and> cache_get (kvCache vm') h' = Inr kv'
               \<and> kv' \<in> set (tab_rows T')
               \<and> (\<forall>r \<in> set (tab_rows T'). primaryKey r \<le> primaryKey kv')
               \<and> mem_read (memory vm') p 8 = Inr (u64_le_bytes (primaryKey kv')))))
  \<and> (cache_get (kvCache vm) h1 = Inr kv1
       \<and> getTableById (store (bc vm)) (tableId kv1) = Some T1
       \<and> (\<forall>r \<in> set (tab_rows T1). primaryKey kv1 \<le> primaryKey r)
     \<longrightarrow> db_previous_i64 vm h1 p = (Inr (- 1), vm))
  \<and> (findTable vm (convertToUnsigned code_i) (convertToUnsigned scope_i)
        (convertToUnsigned table_i) = Some T2
     \<longrightarrow> ((\<forall>r \<in> set (tab_rows T2). primaryKey r \<noteq> convertToUnsigned id_i) \<longrightarrow>
            (\<exists>ei vm'. db_find_i64 vm code_i scope_i table_i id_i = (Inr ei, vm') \<and> ei < - 1
               \<and> getEndIteratorByTableId (kvCache vm') (tab_id T2) = Inr ei))
       \<and> ((\<forall>r \<in> set (tab_rows T2). primaryKey r < convertToUnsigned id_i) \<longrightarrow>
            (\<exists>ei vm'. db_lowerbound_i64 vm code_i scope_i table_i id_i = (Inr ei, vm')
               \<and> ei < - 1
               \<and> getEndIteratorByTableId (kvCache vm') (tab_id T2) = Inr ei))
       \<and> ((\<forall>r \<in> set (tab_rows T2). primaryKey r \<le> convertToUnsigned id_i) \<longrightarrow>
            (\<exists>ei vm'. db_upperbound_i64 vm code_i scope_i table_i id_i = (Inr ei, vm')
               \<and> ei < - 1
               \<and> getEndIteratorByTableId (kvCache vm') (tab_id T2) = Inr ei)))
  \<and> (findTable vm (convertToUnsigned code_i) (convertToUnsigned scope_i)
        (convertToUnsigned table_i) = None
     \<longrightarrow> db_find_i64 vm code_i scope_i table_i id_i = (Inr (- 1), vm)
       \<and> db_lowerbound_i64 vm code_i scope_i table_i id_i = (Inr (- 1), vm)
       \<and> db_upperbound_i64 vm code_i scope_i table_i id_i = (Inr (- 1), vm))"
proof (intro conjI impI)
  assume a: "cache_get (kvCache vm) h = Inr kv
       \<and> getTableById (store (bc vm)) (tableId kv) = Some T
       \<and> (\<forall>r \<in> set (tab_rows T). primaryKey r \<le> primaryKey kv)
       \<and> getEndIteratorByTableId (kvCache vm) (tableId kv) = Inr e"
  then show "db_next_i64 vm h p = (Inr e, vm)"
    by (intro next_last) blast+
  from a show "e < - 1"
    by (blast intro: end_iterator_lt)
next
  assume "it < - 1"
  then show "db_next_i64 vm it p = (Inr (- 1), vm)"
    by (rule next_end)
next
  assume a: "getEndIteratorByTableId (kvCache vm) (tab_id T') = Inr e'
       \<and> getTableById (store (bc vm)) (tab_id T') = Some T'"
    and "tab_rows T' = []"
  then show "db_previous_i64 vm e' p = (Inr (- 1), vm)"
    by (intro previous_end_empty [of vm T']) blast+
next
  assume a: "getEndIteratorByTableId (kvCache vm) (tab_id T') = Inr e'
       \<and> getTableById (store (bc vm)) (tab_id T') = Some T'"
    and b: "tab_rows T' \<noteq> [] \<and> mem_view_ok (memory vm) p 8"
  from a have a1: "getEndIteratorByTableId (kvCache vm) (tab_id T') = Inr e'"
    and a2: "getTableById (store (bc vm)) (tab_id T') = Some T'"
    by blast+
  from b have b1: "tab_rows T' \<noteq> []" and b2: "mem_view_ok (memory vm) p 8"
    by blast+
  from previous_end_last [OF a1 a2 b1 b2]
  show "\<exists>kv' h' vm'. db_previous_i64 vm e' p = (Inr h', vm') \<and> 0 \<le> h'
               \<and> cache_get (kvCache vm') h' = Inr kv'
               \<and> kv' \<in> set (tab_rows T')
               \<and> (\<forall>r \<in> set (tab_rows T'). primaryKey r \<le> primaryKey kv')
               \<and> mem_read (memory vm') p 8 = Inr (u64_le_bytes (primaryKey kv'))" .
next
  assume "cache_get (kvCache vm) h1 = Inr kv1
       \<and> getTableById (store (bc vm)) (tableId kv1) = Some T1
       \<and> (\<forall>r \<in> set (tab_rows T1). primaryKey kv1 \<le> primaryKey r)"
  then show "db_previous_i64 vm h1 p = (Inr (- 1), vm)"
    by (intro previous_first) blast+
next
  assume t: "findTable vm (convertToUnsigned code_i) (convertToUnsigned scope_i)
        (convertToUnsigned table_i) = Some T2"
    and "\<forall>r \<in> set (tab_rows T2). primaryKey r \<noteq> convertToUnsigned id_i"
  then have "tab_get T2 (convertToUnsigned id_i) = None"
    by (simp add: tab_get_None)
  from lookup_no_row [OF t, of tab_get, OF this]
  show "\<exists>ei vm'. db_find_i64 vm code_i scope_i table_i id_i = (Inr ei, vm') \<and> ei < - 1
               \<and> getEndIteratorByTableId (kvCache vm') (tab_id T2) = Inr ei"
    by (simp add: db_find_i64_def)
next
  assume t: "findTable vm (convertToUnsigned code_i) (convertToUnsigned scope_i)
        (convertToUnsigned table_i) = Some T2"
    and "\<forall>r \<in> set (tab_rows T2). primaryKey r < convertToUnsigned id_i"
  then have "tab_lowerbound T2 (convertToUnsigned id_i) = None"
    by (simp add: tab_lowerbound_None)
  from lookup_no_row [OF t, of tab_lowerbound, OF this]
  show "\<exists>ei vm'. db_lowerbound_i64 vm code_i scope_i table_i id_i = (Inr ei, vm')
               \<and> ei < - 1
               \<and> getEndIteratorByTableId (kvCache vm') (tab_id T2) = Inr ei"
    by (simp add: db_lowerbound_i64_def)
next
  assume t: "findTable vm (convertToUnsigned code_i) (convertToUnsigned scope_i)
        (convertToUnsigned table_i) = Some T2"
    and "\<forall>r \<in> set (tab_rows T2). primaryKey r \<le> convertToUnsigned id_i"
  then have "tab_upperbound T2 (convertToUnsigned id_i) = None"
    by (simp add: tab_upperbound_None)
  from lookup_no_row [OF t, of tab_upperbound, OF this]
  show "\<exists>ei vm'. db_upperbound_i64 vm code_i scope_i table_i id_i = (Inr ei, vm')
               \<and> ei < - 1
               \<and> getEndIteratorByTableId (kvCache vm') (tab_id T2) = Inr ei"
    by (simp add: db_upperbound_i64_def)
next
  assume t: "findTable vm (convertToUnsigned code_i) (convertToUnsigned scope_i)
        (convertToUnsigned table_i) = None"
  then show "db_find_i64 vm code_i scope_i table_i id_i = (Inr (- 1), vm)"
    by (simp add: db_find_i64_def lookup_missing_table)
  from t show "db_lowerbound_i64 vm code_i scope_i table_i id_i = (Inr (- 1), vm)"
    by (simp add: db_lowerbound_i64_def lookup_missing_table)
  from t show "db_upperbound_i64 vm code_i scope_i table_i id_i = (Inr (- 1), vm)"
    by (simp add: db_upperbound_i64_def lookup_missing_table)
qed


theorem primary_iterator_conventions_witness:
  "db_next_i64 ex_vm 1 0 = (Inr (- 2), ex_vm)
   \<and> db_next_i64 ex_vm (- 2) 0 = (Inr (- 1), ex_vm)
   \<and> db_previous_i64 ex_vm_empty (- 2) 0 = (Inr (- 1), ex_vm_empty)
   \<and> (\<exists>kv' h' vm'. db_previous_i64 ex_vm (- 2) 0 = (Inr h', vm') \<and> 0 \<le> h'
          \<and> cache_get (kvCache vm') h' = Inr kv'
          \<and> kv' \<in> set (tab_rows ex_table)
          \<and> (\<forall>r \<in> set (tab_rows ex_table). primaryKey r \<le> primaryKey kv')
          \<and> mem_read (memory vm') 0 8 = Inr (u64_le_bytes (primaryKey kv')))
   \<and> db_previous_i64 ex_vm 0 0 = (Inr (- 1), ex_vm)
   \<and> (\<exists>ei vm'. db_find_i64 ex_vm 3773036822876127232 3773036822876127232
                    3607749779137757184 3 = (Inr ei, vm') \<and> ei < - 1
          \<and> getEndIteratorByTableId (kvCache vm') (tab_id ex_table) = Inr ei)
   \<and> (\<exists>ei vm'. db_lowerbound_i64 ex_vm 3773036822876127232 3773036822876127232
                    3607749779137757184 6 = (Inr ei, vm') \<and> ei < - 1
          \<and> getEndIteratorByTableId (kvCache vm') (tab_id ex_table) = Inr ei)
   \<and> (\<exists>ei vm'. db_upperbound_i64 ex_vm 3773036822876127232 3773036822876127232
                    3607749779137757184 5 = (Inr ei, vm') \<and> ei < - 1
          \<and> getEndIteratorByTableId (kvCache vm') (tab_id ex_table) = Inr ei)
   \<and> db_find_i64 ex_vm 3773036822876127232 4399453885987553280 3607749779137757184 3
        = (Inr (- 1), ex_vm)
   \<and> db_lowerbound_i64 ex_vm 3773036822876127232 4399453885987553280 3607749779137757184 3
        = (Inr (- 1), ex_vm)
   \<and> db_upperbound_i64 ex_vm 3773036822876127232 4399453885987553280 3607749779137757184 3
        = (Inr (- 1), ex_vm)"
proof -
  let ?empty = "ex_table\<lparr>tab_rows := []\<rparr>"
  have last_row: "cache_get (kvCache ex_vm) 1 = Inr ex_row5
       \<and> getTableById (store (bc ex_vm)) (tableId ex_row5) = Some ex_table
       \<and> (\<forall>r \<in> set (tab_rows ex_table). primaryKey r \<le> primaryKey ex_row5)
       \<and> getEndIteratorByTableId (kvCache ex_vm) (tableId ex_row5) = Inr (- 2)"
    by (simp add: cache_get_def getTableById_def getEndIteratorByTableId_def
          indexToEndIterator_def ex_defs)
  have first_row: "cache_get (kvCache ex_vm) 0 = Inr ex_row1
       \<and> getTableById (store (bc ex_vm)) (tableId ex_row1) = Some ex_table
       \<and> (\<forall>r \<in> set (tab_rows ex_table). primaryKey ex_row1 \<le> primaryKey r)"
    by (simp add: cache_get_def getTableById_def ex_defs)
  have is_end: "(- 2 :: int) < - 1"
    by simp
  have visited: "getEndIteratorByTableId (kvCache ex_vm) (tab_id ex_table) = Inr (- 2)
       \<and> getTableById (store (bc ex_vm)) (tab_id ex_table) = Some ex_table"
    by (simp add: getTableById_def getEndIteratorByTableId_def indexToEndIterator_def ex_defs)
  have nonempty: "tab_rows ex_table \<noteq> [] \<and> mem_view_ok (memory ex_vm) 0 8"
    by (simp add: mem_view_ok_def ex_defs)
  have visited_empty:
    "getEndIteratorByTableId (kvCache ex_vm_empty) (tab_id ?empty) = Inr (- 2)
       \<and> getTableById (store (bc ex_vm_empty)) (tab_id ?empty) = Some ?empty"
    by (simp add: getTableById_def getEndIteratorByTableId_def indexToEndIterator_def
          ex_vm_empty_def ex_defs)
  have empty: "tab_rows ?empty = []"
    by simp
  have found: "findTable ex_vm (convertToUnsigned 3773036822876127232)
       (convertToUnsigned 3773036822876127232) (convertToUnsigned 3607749779137757184)
       = Some ex_table"
    by (simp add: findTable_def store_findTable_def convertToUnsigned_def ex_defs)
  have missing: "findTable ex_vm (convertToUnsigned 3773036822876127232)
       (convertToUnsigned 4399453885987553280) (convertToUnsigned 3607749779137757184)
       = None"
    by (simp add: findTable_def store_findTable_def convertToUnsigned_def ex_defs)
  have no3: "\<forall>r \<in> set (tab_rows ex_table). primaryKey r \<noteq> convertToUnsigned 3"
    by (simp add: convertToUnsigned_def ex_defs)
  have below6: "\<forall>r \<in> set (tab_rows ex_table). primaryKey r < convertToUnsigned 6"
    by (simp add: convertToUnsigned_def ex_defs)
  have upto5: "\<forall>r \<in> set (tab_rows ex_table). primaryKey r \<le> convertToUnsigned 5"
    by (simp add: convertToUnsigned_def ex_defs)
  note walk = primary_iterator_conventions
    [where vm = ex_vm and h = 1 and kv = ex_row5 and T = ex_table and e = "- 2" and p = 0
       and it = "- 2" and T' = ex_table and e' = "- 2"
       and ?h1.0 = 0 and ?kv1.0 = ex_row1 and ?T1.0 = ex_table
       and code_i = 3773036822876127232 and scope_i = 3773036822876127232
       and table_i = 3607749779137757184 and ?T2.0 = ex_table and id_i = 3]
  note low = primary_iterator_conventions
    [where vm = ex_vm and code_i = 3773036822876127232 and scope_i = 3773036822876127232
       and table_i = 3607749779137757184 and ?T2.0 = ex_table and id_i = 6]
  note up = primary_iterator_conventions
    [where vm = ex_vm and code_i = 3773036822876127232 and scope_i = 3773036822876127232
       and table_i = 3607749779137757184 and ?T2.0 = ex_table and id_i = 5]
  note none = primary_iterator_conventions
    [where vm = ex_vm and code_i = 3773036822876127232 and scope_i = 4399453885987553280
       and table_i = 3607749779137757184 and id_i = 3]
  note void = primary_iterator_conventions
    [where vm = ex_vm_empty and T' = ?empty and e' = "- 2" and p = 0]
  from walk last_row have w1: "db_next_i64 ex_vm 1 0 = (Inr (- 2), ex_vm)"
    by blast
  from walk is_end have w2: "db_next_i64 ex_vm (- 2) 0 = (Inr (- 1), ex_vm)"
    by blast
  from void visited_empty empty
  have w3: "db_previous_i64 ex_vm_empty (- 2) 0 = (Inr (- 1), ex_vm_empty)"
    by blast
  from walk visited nonempty
  have w4: "\<exists>kv' h' vm'. db_previous_i64 ex_vm (- 2) 0 = (Inr h', vm') \<and> 0 \<le> h'
          \<and> cache_get (kvCache vm') h' = Inr kv'
          \<and> kv' \<in> set (tab_rows ex_table)
          \<and> (\<forall>r \<in> set (tab_rows ex_table). primaryKey r \<le> primaryKey kv')
          \<and> mem_read (memory vm') 0 8 = Inr (u64_le_bytes (primaryKey kv'))"
    by blast
  from walk first_row have w5: "db_previous_i64 ex_vm 0 0 = (Inr (- 1), ex_vm)"
    by blast
  from walk found no3
  have w6: "\<exists>ei vm'. db_find_i64 ex_vm 3773036822876127232 3773036822876127232
                    3607749779137757184 3 = (Inr ei, vm') \<and> ei < - 1
          \<and> getEndIteratorByTableId (kvCache vm') (tab_id ex_table) = Inr ei"
    by blast
  from low found below6
  have w7: "\<exists>ei vm'. db_lowerbound_i64 ex_vm 3773036822876127232 3773036822876127232
                    3607749779137757184 6 = (Inr ei, vm') \<and> ei < - 1
          \<and> getEndIteratorByTableId (kvCache vm') (tab_id ex_table) = Inr ei"
    by blast
  from up found upto5
  have w8: "\<exists>ei vm'. db_upperbound_i64 ex_vm 3773036822876127232 3773036822876127232
                    3607749779137757184 5 = (Inr ei, vm') \<and> ei < - 1
          \<and> getEndIteratorByTableId (kvCache vm') (tab_id ex_table) = Inr ei"
    by blast
  from none missing
  have w9: "db_find_i64 ex_vm 3773036822876127232 4399453885987553280 3607749779137757184 3
        = (Inr (- 1), ex_vm)
   \<and> db_lowerbound_i64 ex_vm 3773036822876127232 4399453885987553280 3607749779137757184 3
        = (Inr (- 1), ex_vm)
   \<and> db_upperbound_i64 ex_vm 3773036822876127232 4399453885987553280 3607749779137757184 3
        = (Inr (- 1), ex_vm)"
    by blast
  from w1 w2 w3 w4 w5 w6 w7 w8 w9 show ?thesis
    by (intro conjI) blast+
qed


subsection \<open>The checksum256 key conversion\<close>

lemma checksum256_from_halves:
  "length b = 32 \<Longrightarrow> checksum256_from b = rev (take 16 b) @ rev (drop 16 b)"
  by (simp add: checksum256_from_def slice_copy_def Let_def)

lemma checksum256_from_length: "length b = 32 \<Longrightarrow> length (checksum256_from b) = 32"
  by (simp add: checksum256_from_def slice_copy_def Let_def)

lemma checksum256_from_involution:
  assumes len: "length b = 32"
  shows "checksum256_from (checksum256_from b) = b"
proof -
  have "checksum256_from (rev (take 16 b) @ rev (drop 16 b)) = take 16 b @ drop 16 b"
    using len by (simp add: checksum256_from_def slice_copy_def Let_def)
  then show ?thesis
    using len by (simp add: checksum256_from_halves)
qed

lemma checksum256_from_nth:
  "length b = 32 \<Longrightarrow> i < 32 \<Longrightarrow>
     checksum256_from b ! i = (if i < 16 then b ! (15 - i) else b ! (47 - i))"
  by (auto simp add: checksum256_from_def slice_copy_def Let_def nth_append rev_nth)

lemma checksum256_to_from:
  assumes len: "length b = 32" and buf: "32 \<le> length buf"
  shows "checksum256_to buf (checksum256_from b) = Inr (b @ drop 32 buf)"
proof -
  have "checksum256_to buf (checksum256_from b) =
          (if length buf < length (checksum256_from (checksum256_from b)) then Inl RangeError
           else Inr (checksum256_from (checksum256_from b)
                      @ drop (length (checksum256_from (checksum256_from b))) buf))"
    by (simp add: checksum256_to_def checksum256_from_def Let_def)
  then show ?thesis
    using len buf by (simp add: checksum256_from_involution)
qed

lemma mem_read_length: "mem_read mem p len = Inr bytes \<Longrightarrow> length bytes = nat len"
  by (auto simp: mem_read_def mem_view_ok_def split: if_splits)

lemma mem_read_view_ok: "mem_read mem p len = Inr bytes \<Longrightarrow> mem_view_ok mem p len"
  by (auto simp: mem_read_def split: if_splits)

lemma findOrCreateTable_frame:
  assumes "findOrCreateTable vm c sc t pay = (tab, vm1)"
  shows "idx256 vm1 = idx256 vm
       \<and> store_idx256 (store (bc vm1)) = store_idx256 (store (bc vm))"
  using assms
  by (auto simp: findOrCreateTable_def createTable_def Let_def split: option.splits)

lemma idx_get_set_new:
  "idx_get (idx_set index old new) (idx_tableId new) (idx_primaryKey new) = Some new"
  by (simp add: idx_get_def idx_set_def)

text \<open>
  A key stored through \<open>db_idx256_store\<close> and read back through
  \<open>db_idx256_find_primary\<close>: the index holds the converted bytes and the guest buffer
  receives the raw bytes.
\<close>

lemma idx256_store_then_find_primary:
  fixes vm :: "'d vm_state"
  assumes raw: "mem_read (memory vm) dat 32 = Inr b"
    and pay: "convertToUnsigned payer_i \<noteq> 0"
    and out: "mem_view_ok (memory vm) out 32"
    and cd: "convertToUnsigned code_i = acc_name (receiver (cur_context vm))"
  shows "\<exists>h vm1 obj h' vm2.
      db_idx256_store vm scope_i table_i payer_i id_i dat len = (Inr h, vm1)
    \<and> cache_get (idx256 vm1) h = Inr obj
    \<and> idx_get (store_idx256 (store (bc vm1))) (idx_tableId obj) (convertToUnsigned id_i)
        = Some obj
    \<and> secondaryKey obj = checksum256_from b
    \<and> db_idx256_find_primary vm1 code_i scope_i table_i out len' id_i = (Inr h', vm2)
    \<and> cache_get (idx256 vm2) h' = Inr obj
    \<and> mem_read (memory vm2) out 32 = Inr b"
proof -
  let ?c = "acc_name (receiver (cur_context vm))"
  let ?sc = "convertToUnsigned scope_i" and ?tb = "convertToUnsigned table_i"
  let ?pay = "convertToUnsigned payer_i" and ?key = "convertToUnsigned id_i"
  have lenb: "length b = 32"
    using mem_read_length [OF raw] by simp
  obtain tab vm0 where foc: "findOrCreateTable vm ?c ?sc ?tb ?pay = (tab, vm0)"
    by (cases "findOrCreateTable vm ?c ?sc ?tb ?pay")
  note F = findOrCreateTable_found [OF foc]
  note G = findOrCreateTable_frame [OF foc]
  let ?obj = "\<lparr>idx_tableId = tab_id tab, idx_primaryKey = ?key,
               secondaryKey = checksum256_from b, idx_payer = ?pay\<rparr>"
  let ?vm2 = "vm0\<lparr>bc := (bc vm0)
                 \<lparr>store := (store (bc vm0))
                    \<lparr>store_idx256 := idx_set (store_idx256 (store (bc vm0))) None ?obj\<rparr>\<rparr>\<rparr>"
  let ?c1 = "snd (cacheTable (idx256 vm0) tab)"
  let ?h = "fst (cache_add ?c1 ?obj)"
  let ?c2 = "snd (cache_add ?c1 ?obj)"
  let ?vm1 = "?vm2\<lparr>idx256 := ?c2\<rparr>"
  have stored: "db_idx256_store vm scope_i table_i payer_i id_i dat len = (Inr ?h, ?vm1)"
    using raw pay foc by (simp add: db_idx256_store_def Let_def split_beta)
  have got: "cache_get (idx256 ?vm1) ?h = Inr ?obj"
    by (simp add: cache_get_add_new)
  have entry: "idx_get (store_idx256 (store (bc ?vm1))) (idx_tableId ?obj) ?key = Some ?obj"
    using idx_get_set_new [of "store_idx256 (store (bc vm0))" None ?obj] by simp
  have tab1: "findTable ?vm1 (convertToUnsigned code_i) ?sc ?tb = Some tab"
    using F cd by (simp add: findTable_def store_findTable_def)
  obtain sec where sec: "mem_read (memory ?vm1) out 32 = Inr sec"
    using out F by (simp add: mem_read_def)
  have lens: "length sec = 32"
    using mem_read_length [OF sec] by simp
  have conv: "checksum256_to sec (secondaryKey ?obj) = Inr b"
    using checksum256_to_from [OF lenb, of sec] lens by simp
  obtain m where m: "mem_write (memory ?vm1) out 32 b = Inr m"
    using out F lenb by (auto simp: mem_write_def)
  have reread: "mem_read m out 32 = Inr b"
    using mem_read_write [OF m] lenb by simp
  let ?d1 = "snd (cacheTable (idx256 ?vm1) tab)"
  let ?h' = "fst (cache_add ?d1 ?obj)"
  let ?d2 = "snd (cache_add ?d1 ?obj)"
  let ?vm3 = "?vm1\<lparr>memory := m, idx256 := ?d2\<rparr>"
  have found: "db_idx256_find_primary ?vm1 code_i scope_i table_i out len' id_i
                 = (Inr ?h', ?vm3)"
    using sec tab1 entry conv m
    by (simp add: db_idx256_find_primary_def Let_def split_beta)
  have got': "cache_get (idx256 ?vm3) ?h' = Inr ?obj"
    by (simp add: cache_get_add_new)
  have reread': "mem_read (memory ?vm3) out 32 = Inr b"
    using reread by simp
  have key: "secondaryKey ?obj = checksum256_from b"
    by simp
  from stored got entry key found got' reread' show ?thesis
    by blast
qed

text \<open>
  C2, as the code has it. For every 32-byte value \<open>b\<close> the sort bytes
  \<open>checksum256_from b\<close> are again 32 bytes: each 16-byte half is reversed and stays in
  its place (byte \<open>i\<close> of the first half is byte \<open>15 - i\<close> of \<open>b\<close>, byte \<open>i\<close> of
  the second half is byte \<open>47 - i\<close> of \<open>b\<close>); the halves are not swapped. The write
  conversion is the same map, so writing the sort bytes back to a buffer of at least 32
  bytes restores the raw 32 bytes at its start. Through the interface: when the guest
  memory holds \<open>b\<close> at the data pointer, \<open>db_idx256_store\<close> files an index entry
  whose key is \<open>checksum256_from b\<close>, and \<open>db_idx256_find_primary\<close> on that row
  writes \<open>b\<close> itself to the guest buffer it is given.
\<close>

theorem checksum256_conversion:
  fixes vm :: "'d vm_state"
  assumes "length b = 32"
  shows "length (checksum256_from b) = 32
       \<and> checksum256_from b = rev (take 16 b) @ rev (drop 16 b)
       \<and> (\<forall>i < 32. checksum256_from b ! i = (if i < 16 then b ! (15 - i) else b ! (47 - i)))
       \<and> (\<forall>buf. 32 \<le> length buf \<longrightarrow>
             checksum256_to buf (checksum256_from b) = Inr (b @ drop 32 buf))
       \<and> (mem_read (memory vm) dat 32 = Inr b
            \<and> convertToUnsigned payer_i \<noteq> 0
            \<and> mem_view_ok (memory vm) out 32
            \<and> convertToUnsigned code_i = acc_name (receiver (cur_context vm)) \<longrightarrow>
           (\<exists>h vm1 obj h' vm2.
               db_idx256_store vm scope_i table_i payer_i id_i dat len = (Inr h, vm1)
             \<and> cache_get (idx256 vm1) h = Inr obj
             \<and> idx_get (store_idx256 (store (bc vm1))) (idx_tableId obj)
                  (convertToUnsigned id_i) = Some obj
             \<and> secondaryKey obj = checksum256_from b
             \<and> db_idx256_find_primary vm1 code_i scope_i table_i out len' id_i = (Inr h', vm2)
             \<and> cache_get (idx256 vm2) h' = Inr obj
             \<and> mem_read (memory vm2) out 32 = Inr b))"
proof -
  have conv: "length (checksum256_from b) = 32
       \<and> checksum256_from b = rev (take 16 b) @ rev (drop 16 b)
       \<and> (\<forall>i < 32. checksum256_from b ! i = (if i < 16 then b ! (15 - i) else b ! (47 - i)))
       \<and> (\<forall>buf. 32 \<le> length buf \<longrightarrow>
             checksum256_to buf (checksum256_from b) = Inr (b @ drop 32 buf))"
    using assms
    by (simp add: checksum256_from_length checksum256_from_halves [symmetric]
          checksum256_from_nth checksum256_to_from)
  have iface: "mem_read (memory vm) dat 32 = Inr b
            \<and> convertToUnsigned payer_i \<noteq> 0
            \<and> mem_view_ok (memory vm) out 32
            \<and> convertToUnsigned code_i = acc_name (receiver (cur_context vm)) \<longrightarrow>
           (\<exists>h vm1 obj h' vm2.
               db_idx256_store vm scope_i table_i payer_i id_i dat len = (Inr h, vm1)
             \<and> cache_get (idx256 vm1) h = Inr obj
             \<and> idx_get (store_idx256 (store (bc vm1))) (idx_tableId obj)
                  (convertToUnsigned id_i) = Some obj
             \<and> secondaryKey obj = checksum256_from b
             \<and> db_idx256_find_primary vm1 code_i scope_i table_i out len' id_i = (Inr h', vm2)
             \<and> cache_get (idx256 vm2) h' = Inr obj
             \<and> mem_read (memory vm2) out 32 = Inr b)"
    by (blast intro: idx256_store_then_find_primary)
  from conv iface show ?thesis
    by blast
qed

theorem checksum256_conversion_witness:
  "checksum256_from (map of_nat [0..<32])
     = [15, 14, 13, 12, 11, 10, 9, 8, 7, 6, 5, 4, 3, 2, 1, 0,
        31, 30, 29, 28, 27, 26, 25, 24, 23, 22, 21, 20, 19, 18, 17, 16]
   \<and> checksum256_to (replicate 32 0) (checksum256_from (map of_nat [0..<32]))
       = Inr (map of_nat [0..<32])
   \<and> (\<exists>h vm1 obj h' vm2.
         db_idx256_store ex_vm_bytes 3773036822876127232 3607749779137757184
            3773036822876127232 7 0 32 = (Inr h, vm1)
       \<and> cache_get (idx256 vm1) h = Inr obj
       \<and> idx_get (store_idx256 (store (bc vm1))) (idx_tableId obj) (convertToUnsigned 7)
           = Some obj
       \<and> secondaryKey obj
           = [15, 14, 13, 12, 11, 10, 9, 8, 7, 6, 5, 4, 3, 2, 1, 0,
              31, 30, 29, 28, 27, 26, 25, 24, 23, 22, 21, 20, 19, 18, 17, 16]
       \<and> db_idx256_find_primary vm1 3773036822876127232 3773036822876127232
            3607749779137757184 32 32 7 = (Inr h', vm2)
       \<and> cache_get (idx256 vm2) h' = Inr obj
       \<and> mem_read (memory vm2) 32 32 = Inr (map of_nat [0..<32]))"
proof -
  have len: "length (map of_nat [0..<32] :: byte list) = 32" by simp
  have buf: "32 \<le> length (replicate 32 0 :: byte list)" by simp
  have bytes: "rev (take 16 (map of_nat [0..<32])) @ rev (drop 16 (map of_nat [0..<32]))
     = ([15, 14, 13, 12, 11, 10, 9, 8, 7, 6, 5, 4, 3, 2, 1, 0,
        31, 30, 29, 28, 27, 26, 25, 24, 23, 22, 21, 20, 19, 18, 17, 16] :: byte list)"
    by code_simp
  have guest: "mem_read (memory ex_vm_bytes) 0 32 = Inr (map of_nat [0..<32])
            \<and> convertToUnsigned 3773036822876127232 \<noteq> 0
            \<and> mem_view_ok (memory ex_vm_bytes) 32 32
            \<and> convertToUnsigned 3773036822876127232
                = acc_name (receiver (cur_context ex_vm_bytes))"
    by code_simp
  note inst = checksum256_conversion
    [OF len, where vm = ex_vm_bytes and dat = 0 and out = 32
       and payer_i = 3773036822876127232 and code_i = 3773036822876127232
       and scope_i = 3773036822876127232 and table_i = 3607749779137757184
       and id_i = 7 and len = 32 and len' = 32]
  from inst
  have halves: "checksum256_from (map of_nat [0..<32])
                  = rev (take 16 (map of_nat [0..<32])) @ rev (drop 16 (map of_nat [0..<32]))"
    and restore: "\<forall>buf. 32 \<le> length buf \<longrightarrow>
                 checksum256_to buf (checksum256_from (map of_nat [0..<32]))
                   = Inr (map of_nat [0..<32] @ drop 32 buf)"
    by blast+
  from restore buf
  have "checksum256_to (replicate 32 0) (checksum256_from (map of_nat [0..<32]))
          = Inr (map of_nat [0..<32] @ drop 32 (replicate 32 0))"
    by blast
  then have w2: "checksum256_to (replicate 32 0) (checksum256_from (map of_nat [0..<32]))
          = Inr (map of_nat [0..<32])"
    by simp
  from halves bytes
  have w1: "checksum256_from (map of_nat [0..<32])
     = [15, 14, 13, 12, 11, 10, 9, 8, 7, 6, 5, 4, 3, 2, 1, 0,
        31, 30, 29, 28, 27, 26, 25, 24, 23, 22, 21, 20, 19, 18, 17, 16]"
    by (simp only:)
  from inst guest
  have "\<exists>h vm1 obj h' vm2.
         db_idx256_store ex_vm_bytes 3773036822876127232 3607749779137757184
            3773036822876127232 7 0 32 = (Inr h, vm1)
       \<and> cache_get (idx256 vm1) h = Inr obj
       \<and> idx_get (store_idx256 (store (bc vm1))) (idx_tableId obj) (convertToUnsigned 7)
           = Some obj
       \<and> secondaryKey obj = checksum256_from (map of_nat [0..<32])
       \<and> db_idx256_find_primary vm1 3773036822876127232 3773036822876127232
            3607749779137757184 32 32 7 = (Inr h', vm2)
       \<and> cache_get (idx256 vm2) h' = Inr obj
       \<and> mem_read (memory vm2) 32 32 = Inr (map of_nat [0..<32])"
    by blast
  then have w3: "\<exists>h vm1 obj h' vm2.
         db_idx256_store ex_vm_bytes 3773036822876127232 3607749779137757184
            3773036822876127232 7 0 32 = (Inr h, vm1)
       \<and> cache_get (idx256 vm1) h = Inr obj
       \<and> idx_get (store_idx256 (store (bc vm1))) (idx_tableId obj) (convertToUnsigned 7)
           = Some obj
       \<and> secondaryKey obj
           = [15, 14, 13, 12, 11, 10, 9, 8, 7, 6, 5, 4, 3, 2, 1, 0,
              31, 30, 29, 28, 27, 26, 25, 24, 23, 22, 21, 20, 19, 18, 17, 16]
       \<and> db_idx256_find_primary vm1 3773036822876127232 3773036822876127232
            3607749779137757184 32 32 7 = (Inr h', vm2)
       \<and> cache_get (idx256 vm2) h' = Inr obj
       \<and> mem_read (memory vm2) 32 32 = Inr (map of_nat [0..<32])"
    by (simp only: w1)
  from w1 w2 w3 show ?thesis
    by blast
qed

text \<open>
  C2 as stated fails: on the bytes 0, 1, ..., 31 the sort bytes of the code begin with 15
  (the first half reversed), those of the swap-and-reverse conversion begin with 31.
\<close>

theorem checksum256_swap_counterexample:
  "checksum256_from (map of_nat [0..<32]) \<noteq> spec_swap_halves_reverse_each (map of_nat [0..<32])
   \<and> hd (checksum256_from (map of_nat [0..<32])) = 15
   \<and> hd (spec_swap_halves_reverse_each (map of_nat [0..<32])) = 31"
  by code_simp


subsection \<open>Inline actions and notifications\<close>

lemma push_action_sel:
  "actionsQueue (push_action c n) = actionsQueue c @ [n]"
  "notificationsQueue (push_action c n) = notificationsQueue c"
  "receiver (push_action c n) = receiver c"
  "firstReceiver (push_action c n) = firstReceiver c"
  "actionOrdinal (push_action c n) = actionOrdinal c"
  by (cases c; simp add: push_action_def)+

lemma push_notification_sel:
  "notificationsQueue (push_notification c n) = notificationsQueue c @ [n]"
  "actionsQueue (push_notification c n) = actionsQueue c"
  "receiver (push_notification c n) = receiver c"
  "firstReceiver (push_notification c n) = firstReceiver c"
  "actionOrdinal (push_notification c n) = actionOrdinal c"
  by (cases c; simp add: push_notification_def)+

lemma send_inline_cases:
  assumes "mem_read (memory vm) act sz = Inr buf" and "decode buf = Inr da"
  shows "send_inline decode decodeData vm act sz =
    (case getAccount (bc vm) (act_account da) of
       None \<Rightarrow> (Inl (Error ''Contract is missing for inline action'' [act_account da]), vm)
     | Some contract \<Rightarrow>
        if \<not> isContract contract
        then (Inl (Error ''Contract is missing for inline action'' [act_account da]), vm)
        else if \<not> actions_lookup contract (act_name da) then (Inr (), vm)
        else (case decodeData contract da of
                Inl e \<Rightarrow> (Inl e, vm)
              | Inr dd \<Rightarrow>
                  (Inr (),
                   vm\<lparr>cur_context := push_action (cur_context vm)
                        (Context (acc_name (receiver (cur_context vm))) None contract contract
                           (act_name da) (act_data da) (act_authorization da) [] []
                           (Some dd))\<rparr>)))"
  using assms by (simp add: send_inline_def split: option.splits sum.splits)

text \<open>
  C4. \<open>send_inline\<close> decodes an action from the bytes of the guest memory. It fails
  when the target account does not exist or is not a contract. When the target is a
  contract that declares the action (and the action data decode against its ABI), one
  child context is appended to the actions queue of the current context, with the
  sender the current receiver's name and with the receiver and the first receiver the
  target. When the target does not declare the action, nothing is enqueued: the call
  returns without an error, except for the action name \<open>constructor\<close>, which passes
  the lookup in \<open>contract.actions\<close> and is then refused by the decoding of the action
  data against the ABI, so that the call fails. Whenever the decoding against the ABI
  refuses the actions the target does not declare, a call that changes the actions queue
  has a target that declares the action.
\<close>

theorem send_inline_contract:
  fixes vm :: "'d vm_state"
  assumes "mem_read (memory vm) act sz = Inr inlineBuffer"
    and "decode inlineBuffer = Inr da"
  shows
   "(getAccount (bc vm) (act_account da) = None \<longrightarrow>
       send_inline decode decodeData vm act sz
         = (Inl (Error ''Contract is missing for inline action'' [act_account da]), vm))
  \<and> (\<forall>c. getAccount (bc vm) (act_account da) = Some c \<and> \<not> isContract c \<longrightarrow>
       send_inline decode decodeData vm act sz
         = (Inl (Error ''Contract is missing for inline action'' [act_account da]), vm))
  \<and> (\<forall>c dd. getAccount (bc vm) (act_account da) = Some c \<and> isContract c
        \<and> act_name da \<in> set (actions c) \<and> decodeData c da = Inr dd \<longrightarrow>
       (\<exists>child vm'. send_inline decode decodeData vm act sz = (Inr (), vm')
          \<and> actionsQueue (cur_context vm') = actionsQueue (cur_context vm) @ [child]
          \<and> notificationsQueue (cur_context vm') = notificationsQueue (cur_context vm)
          \<and> sender child = acc_name (receiver (cur_context vm))
          \<and> receiver child = c
          \<and> firstReceiver child = c
          \<and> action child = act_name da
          \<and> data child = act_data da
          \<and> authorization child = act_authorization da
          \<and> bc vm' = bc vm))
  \<and> (\<forall>c. getAccount (bc vm) (act_account da) = Some c \<and> isContract c
        \<and> act_name da \<notin> set (actions c) \<and> act_name da \<noteq> name_constructor \<longrightarrow>
       send_inline decode decodeData vm act sz = (Inr (), vm))
  \<and> (\<forall>c e. getAccount (bc vm) (act_account da) = Some c \<and> isContract c
        \<and> act_name da \<notin> set (actions c) \<and> act_name da = name_constructor
        \<and> decodeData c da = Inl e \<longrightarrow>
       send_inline decode decodeData vm act sz = (Inl e, vm))
  \<and> ((\<forall>c. act_name da \<notin> set (actions c) \<longrightarrow> (\<exists>e. decodeData c da = Inl e))
        \<and> actionsQueue (cur_context (snd (send_inline decode decodeData vm act sz)))
            \<noteq> actionsQueue (cur_context vm) \<longrightarrow>
       (\<exists>c. getAccount (bc vm) (act_account da) = Some c \<and> isContract c
            \<and> act_name da \<in> set (actions c)))"
proof -
  note cases = send_inline_cases [of vm act sz inlineBuffer decode da decodeData, OF assms]
  have one: "getAccount (bc vm) (act_account da) = None \<longrightarrow>
       send_inline decode decodeData vm act sz
         = (Inl (Error ''Contract is missing for inline action'' [act_account da]), vm)"
    by (simp add: cases)
  have two: "\<forall>c. getAccount (bc vm) (act_account da) = Some c \<and> \<not> isContract c \<longrightarrow>
       send_inline decode decodeData vm act sz
         = (Inl (Error ''Contract is missing for inline action'' [act_account da]), vm)"
    by (simp add: cases)
  have three: "\<forall>c dd. getAccount (bc vm) (act_account da) = Some c \<and> isContract c
        \<and> act_name da \<in> set (actions c) \<and> decodeData c da = Inr dd \<longrightarrow>
       (\<exists>child vm'. send_inline decode decodeData vm act sz = (Inr (), vm')
          \<and> actionsQueue (cur_context vm') = actionsQueue (cur_context vm) @ [child]
          \<and> notificationsQueue (cur_context vm') = notificationsQueue (cur_context vm)
          \<and> sender child = acc_name (receiver (cur_context vm))
          \<and> receiver child = c
          \<and> firstReceiver child = c
          \<and> action child = act_name da
          \<and> data child = act_data da
          \<and> authorization child = act_authorization da
          \<and> bc vm' = bc vm)"
    by (auto simp: cases push_action_sel actions_lookup_def)
  have four: "\<forall>c. getAccount (bc vm) (act_account da) = Some c \<and> isContract c
        \<and> act_name da \<notin> set (actions c) \<and> act_name da \<noteq> name_constructor \<longrightarrow>
       send_inline decode decodeData vm act sz = (Inr (), vm)"
    by (simp add: cases actions_lookup_def)
  have five: "\<forall>c e. getAccount (bc vm) (act_account da) = Some c \<and> isContract c
        \<and> act_name da \<notin> set (actions c) \<and> act_name da = name_constructor
        \<and> decodeData c da = Inl e \<longrightarrow>
       send_inline decode decodeData vm act sz = (Inl e, vm)"
    by (simp add: cases actions_lookup_def)
  have six: "(\<forall>c. act_name da \<notin> set (actions c) \<longrightarrow> (\<exists>e. decodeData c da = Inl e))
        \<and> actionsQueue (cur_context (snd (send_inline decode decodeData vm act sz)))
            \<noteq> actionsQueue (cur_context vm) \<longrightarrow>
       (\<exists>c. getAccount (bc vm) (act_account da) = Some c \<and> isContract c
            \<and> act_name da \<in> set (actions c))"
  proof (intro impI, elim conjE)
    assume refuses: "\<forall>c. act_name da \<notin> set (actions c) \<longrightarrow> (\<exists>e. decodeData c da = Inl e)"
      and changed: "actionsQueue (cur_context (snd (send_inline decode decodeData vm act sz)))
            \<noteq> actionsQueue (cur_context vm)"
    show "\<exists>c. getAccount (bc vm) (act_account da) = Some c \<and> isContract c
            \<and> act_name da \<in> set (actions c)"
    proof (cases "getAccount (bc vm) (act_account da)")
      case None
      with changed show ?thesis by (simp add: cases)
    next
      case (Some c)
      show ?thesis
      proof (cases "act_name da \<in> set (actions c)")
        case True
        with Some changed show ?thesis
          by (cases "isContract c") (simp_all add: cases)
      next
        case False
        with refuses obtain e where "decodeData c da = Inl e" by blast
        with Some changed have False
          by (simp add: cases split: if_splits)
        then show ?thesis ..
      qed
    qed
  qed
  from one two three four five six show ?thesis
    by blast
qed

theorem send_inline_contract_witness:
  "(\<exists>child vm'.
       send_inline (ex_decode 0x3d0e000000000000 0xcdcd3c2d57000000) ex_decodeData ex_vm 0 4
         = (Inr (), vm')
     \<and> actionsQueue (cur_context vm') = actionsQueue (cur_context ex_vm) @ [child]
     \<and> notificationsQueue (cur_context vm') = notificationsQueue (cur_context ex_vm)
     \<and> sender child = acc_name (receiver (cur_context ex_vm))
     \<and> receiver child = ex_bob
     \<and> firstReceiver child = ex_bob
     \<and> action child = 0xcdcd3c2d57000000
     \<and> data child = replicate 4 0
     \<and> authorization child
         = [\<lparr>actor = 0x345c850000000000, permission = 0x3232eda800000000\<rparr>]
     \<and> bc vm' = bc ex_vm)
   \<and> send_inline (ex_decode 0x49b6a00000000000 0xcdcd3c2d57000000) ex_decodeData ex_vm 0 4
       = (Inl (Error ''Contract is missing for inline action'' [0x49b6a00000000000]), ex_vm)
   \<and> send_inline (ex_decode 0x41af488000000000 0xcdcd3c2d57000000) ex_decodeData ex_vm 0 4
       = (Inl (Error ''Contract is missing for inline action'' [0x41af488000000000]), ex_vm)
   \<and> send_inline (ex_decode 0x3d0e000000000000 0x6b80000000000000) ex_decodeData ex_vm 0 4
       = (Inr (), ex_vm)
   \<and> send_inline (ex_decode 0x3d0e000000000000 0x45278cdf48cd2e00) ex_decodeData ex_vm 0 4
       = (Inl (Error ''Action does not exist in provided ABI'' [0x45278cdf48cd2e00]), ex_vm)
   \<and> actionsQueue (cur_context (snd (send_inline
         (ex_decode 0x3d0e000000000000 0xcdcd3c2d57000000) ex_decodeData ex_vm 0 4)))
       \<noteq> actionsQueue (cur_context ex_vm)
   \<and> (\<exists>c. getAccount (bc ex_vm) 0x3d0e000000000000 = Some c \<and> isContract c
          \<and> 0xcdcd3c2d57000000 \<in> set (actions c))"
proof -
  have rd: "mem_read (memory ex_vm) 0 4 = Inr (replicate 4 0)"
    by (simp add: mem_read_def mem_view_ok_def ex_vm_def)
  have bob: "getAccount (bc ex_vm) 0x3d0e000000000000 = Some ex_bob"
    and dave: "getAccount (bc ex_vm) 0x49b6a00000000000 = None"
    and carol: "getAccount (bc ex_vm) 0x41af488000000000 = Some ex_carol"
    by (simp_all add: getAccount_def ex_defs)
  have dec_bob: "ex_decode 0x3d0e000000000000 0xcdcd3c2d57000000 (replicate 4 0)
      = Inr \<lparr>act_account = 0x3d0e000000000000, act_name = 0xcdcd3c2d57000000,
             act_authorization
               = [\<lparr>actor = 0x345c850000000000, permission = 0x3232eda800000000\<rparr>],
             act_data = replicate 4 0\<rparr>"
    and dec_dave: "ex_decode 0x49b6a00000000000 0xcdcd3c2d57000000 (replicate 4 0)
      = Inr \<lparr>act_account = 0x49b6a00000000000, act_name = 0xcdcd3c2d57000000,
             act_authorization
               = [\<lparr>actor = 0x345c850000000000, permission = 0x3232eda800000000\<rparr>],
             act_data = replicate 4 0\<rparr>"
    and dec_carol: "ex_decode 0x41af488000000000 0xcdcd3c2d57000000 (replicate 4 0)
      = Inr \<lparr>act_account = 0x41af488000000000, act_name = 0xcdcd3c2d57000000,
             act_authorization
               = [\<lparr>actor = 0x345c850000000000, permission = 0x3232eda800000000\<rparr>],
             act_data = replicate 4 0\<rparr>"
    and dec_hi: "ex_decode 0x3d0e000000000000 0x6b80000000000000 (replicate 4 0)
      = Inr \<lparr>act_account = 0x3d0e000000000000, act_name = 0x6b80000000000000,
             act_authorization
               = [\<lparr>actor = 0x345c850000000000, permission = 0x3232eda800000000\<rparr>],
             act_data = replicate 4 0\<rparr>"
    and dec_ctor: "ex_decode 0x3d0e000000000000 0x45278cdf48cd2e00 (replicate 4 0)
      = Inr \<lparr>act_account = 0x3d0e000000000000, act_name = 0x45278cdf48cd2e00,
             act_authorization
               = [\<lparr>actor = 0x345c850000000000, permission = 0x3232eda800000000\<rparr>],
             act_data = replicate 4 0\<rparr>"
    by (simp_all add: ex_decode_def)
  note to_bob = send_inline_contract
    [where decode = "ex_decode 0x3d0e000000000000 0xcdcd3c2d57000000"
       and decodeData = ex_decodeData, OF rd dec_bob]
  note to_dave = send_inline_contract
    [where decode = "ex_decode 0x49b6a00000000000 0xcdcd3c2d57000000"
       and decodeData = ex_decodeData, OF rd dec_dave]
  note to_carol = send_inline_contract
    [where decode = "ex_decode 0x41af488000000000 0xcdcd3c2d57000000"
       and decodeData = ex_decodeData, OF rd dec_carol]
  note undeclared = send_inline_contract
    [where decode = "ex_decode 0x3d0e000000000000 0x6b80000000000000"
       and decodeData = ex_decodeData, OF rd dec_hi]
  note ctor = send_inline_contract
    [where decode = "ex_decode 0x3d0e000000000000 0x45278cdf48cd2e00"
       and decodeData = ex_decodeData, OF rd dec_ctor]
  have w1: "\<exists>child vm'.
       send_inline (ex_decode 0x3d0e000000000000 0xcdcd3c2d57000000) ex_decodeData ex_vm 0 4
         = (Inr (), vm')
     \<and> actionsQueue (cur_context vm') = actionsQueue (cur_context ex_vm) @ [child]
     \<and> notificationsQueue (cur_context vm') = notificationsQueue (cur_context ex_vm)
     \<and> sender child = acc_name (receiver (cur_context ex_vm))
     \<and> receiver child = ex_bob
     \<and> firstReceiver child = ex_bob
     \<and> action child = 0xcdcd3c2d57000000
     \<and> data child = replicate 4 0
     \<and> authorization child
         = [\<lparr>actor = 0x345c850000000000, permission = 0x3232eda800000000\<rparr>]
     \<and> bc vm' = bc ex_vm"
    using to_bob bob by (simp add: ex_decodeData_def ex_bob_def)
  have w2: "send_inline (ex_decode 0x49b6a00000000000 0xcdcd3c2d57000000) ex_decodeData ex_vm 0 4
       = (Inl (Error ''Contract is missing for inline action'' [0x49b6a00000000000]), ex_vm)"
    using to_dave dave by simp
  have w3: "send_inline (ex_decode 0x41af488000000000 0xcdcd3c2d57000000) ex_decodeData ex_vm 0 4
       = (Inl (Error ''Contract is missing for inline action'' [0x41af488000000000]), ex_vm)"
    using to_carol carol by (simp add: ex_carol_def)
  have w4: "send_inline (ex_decode 0x3d0e000000000000 0x6b80000000000000) ex_decodeData ex_vm 0 4
       = (Inr (), ex_vm)"
    using undeclared bob by (simp add: ex_bob_def name_constructor_def)
  have w5: "send_inline (ex_decode 0x3d0e000000000000 0x45278cdf48cd2e00) ex_decodeData ex_vm 0 4
       = (Inl (Error ''Action does not exist in provided ABI'' [0x45278cdf48cd2e00]), ex_vm)"
    using ctor bob by (simp add: ex_bob_def name_constructor_def ex_decodeData_def)
  from w1 have changed: "actionsQueue (cur_context (snd (send_inline
         (ex_decode 0x3d0e000000000000 0xcdcd3c2d57000000) ex_decodeData ex_vm 0 4)))
       \<noteq> actionsQueue (cur_context ex_vm)"
    by auto
  have refuses: "act_name da \<notin> set (actions c) \<longrightarrow> (\<exists>e. ex_decodeData c da = Inl e)"
    for c da
    by (simp add: ex_decodeData_def)
  from to_bob changed refuses
  have w6: "\<exists>c. getAccount (bc ex_vm) 0x3d0e000000000000 = Some c \<and> isContract c
          \<and> 0xcdcd3c2d57000000 \<in> set (actions c)"
    by simp
  from w1 w2 w3 w4 w5 changed w6 show ?thesis
    by blast
qed

lemma find_neq_None_iff: "find P xs \<noteq> None \<longleftrightarrow> (\<exists>x \<in> set xs. P x)"
  by (auto simp: find_None_iff)

lemma require_recipient_cases:
  "require_recipient vm n =
     (case getAccount (bc vm) (convertToUnsigned n) of
        None \<Rightarrow>
          (Inl (Error ''Account missing for require_recipient'' [convertToUnsigned n]), vm)
      | Some acct \<Rightarrow>
          (Inr (),
           if (\<exists>t \<in> set (actionTraces (bc vm)).
                  isNotification t \<and> acc_name (receiver t) = acc_name acct
                  \<and> actionOrdinal t = actionOrdinal (cur_context vm))
              \<or> \<not> isContract acct
              \<or> acc_name acct = acc_name (receiver (cur_context vm))
           then vm
           else vm\<lparr>cur_context := push_notification (cur_context vm)
                  (Context 0 (actionOrdinal (cur_context vm))
                     (if isNotification (cur_context vm) then firstReceiver (cur_context vm)
                      else receiver (cur_context vm))
                     acct (action (cur_context vm)) (data (cur_context vm)) [] [] []
                     (decodedData (cur_context vm)))\<rparr>))"
  by (auto simp: require_recipient_def Let_def find_neq_None_iff simp del: not_None_eq
           split: option.splits)

text \<open>
  What holds of every call: a recipient that is the current receiver or is
  not a contract is skipped without an error and nothing is enqueued; an enqueued
  notification has the first receiver of the current context when that context is a
  notification and the current receiver otherwise.
\<close>

lemma require_recipient_skips_and_inherits:
  assumes "getAccount (bc vm) (convertToUnsigned n) = Some acct"
  shows "(\<not> isContract acct \<or> acc_name acct = acc_name (receiver (cur_context vm))
            \<longrightarrow> require_recipient vm n = (Inr (), vm))
       \<and> (\<forall>c. c \<in> set (notificationsQueue (cur_context (snd (require_recipient vm n))))
              \<and> c \<notin> set (notificationsQueue (cur_context vm))
            \<longrightarrow> receiver c = acct
              \<and> firstReceiver c =
                  (if isNotification (cur_context vm) then firstReceiver (cur_context vm)
                   else receiver (cur_context vm)))"
  using assms by (auto simp: require_recipient_cases push_notification_sel)

text \<open>
  C6 fails on the code where one action names the same recipient twice. The duplicate
  check reads the action traces, which \<open>require_recipient\<close> does not extend, so the
  second call does not see the notification the first call has queued. Run on the action
  \<open>alice::transfer\<close> of ordinal 0 with no action traces, two calls of
  \<open>require_recipient(bob)\<close> both succeed and leave two notifications for (0, bob) in
  the notifications queue.
\<close>

theorem require_recipient_twice_enqueues_twice:
  "fst (require_recipient ex_vm 4399453885987553280) = Inr ()
   \<and> fst (require_recipient (snd (require_recipient ex_vm 4399453885987553280))
            4399453885987553280) = Inr ()
   \<and> map (\<lambda>c. (acc_name (receiver c), actionOrdinal c))
        (notificationsQueue (cur_context
           (snd (require_recipient (snd (require_recipient ex_vm 4399453885987553280))
                   4399453885987553280))))
      = [(0x3d0e000000000000, Some 0), (0x3d0e000000000000, Some 0)]"
  by (simp add: require_recipient_def getAccount_def convertToUnsigned_def isNotification_def
        Let_def push_notification_def ex_defs)

subsection \<open>Dispatch of one action\<close>

lemma empty_cache_resolves_nothing:
  "cache_get empty_cache h \<noteq> Inr obj"
  "getEndIteratorByTableId empty_cache i \<noteq> Inr e"
  by (simp_all add: cache_get_def getEndIteratorByTableId_def empty_cache_def)

lemma caches_empty_finalize: "caches_empty (finalize vm)"
  by (simp add: caches_empty_def finalize_def)

text \<open>
  C10. \<open>apply\<close> is entered with the five iterator caches empty, as the constructor
  and the previous \<open>finalize\<close> leave them. From such a state all five caches are empty
  again after \<open>apply\<close>, on every exit path, so no handle and no end iterator issued
  during the action resolves afterwards. The guest's export is called inside the
  \<open>try\<close> block, whose \<open>finally\<close> clause runs \<open>finalize\<close>: once the authorization loop
  has passed, and whatever the state on entry, \<open>apply\<close> ends as the guest ended (normal
  return, assertion error or the \<open>eosio_exit\<close> sentinel), all five caches are the empty
  cache, and the store is as the guest left it. When the authorization loop throws, the
  guest has not run and no handle has been issued; the state is the one on entry, with
  the context installed.
\<close>

theorem vm_apply_destroys_caches:
  fixes vm :: "'d vm_state"
  shows
   "(caches_empty vm \<longrightarrow>
       caches_empty (snd (vm_apply sat guest vm ctx))
     \<and> (\<forall>h kv. cache_get (kvCache (snd (vm_apply sat guest vm ctx))) h \<noteq> Inr kv)
     \<and> (\<forall>i e. getEndIteratorByTableId (kvCache (snd (vm_apply sat guest vm ctx))) i \<noteq> Inr e))
  \<and> (check_authorization sat (vm\<lparr>cur_context := ctx\<rparr>) (authorization ctx) = Inr () \<longrightarrow>
       fst (vm_apply sat guest vm ctx)
         = fst (guest (acc_name (receiver ctx)) (acc_name (firstReceiver ctx)) (action ctx)
                  (vm\<lparr>cur_context := ctx\<rparr>))
     \<and> kvCache (snd (vm_apply sat guest vm ctx)) = empty_cache
     \<and> idx64 (snd (vm_apply sat guest vm ctx)) = empty_cache
     \<and> idx128 (snd (vm_apply sat guest vm ctx)) = empty_cache
     \<and> idx256 (snd (vm_apply sat guest vm ctx)) = empty_cache
     \<and> idxDouble (snd (vm_apply sat guest vm ctx)) = empty_cache
     \<and> (\<forall>h kv. cache_get (kvCache (snd (vm_apply sat guest vm ctx))) h \<noteq> Inr kv)
     \<and> (\<forall>i e. getEndIteratorByTableId (kvCache (snd (vm_apply sat guest vm ctx))) i \<noteq> Inr e)
     \<and> bc (snd (vm_apply sat guest vm ctx))
         = bc (snd (guest (acc_name (receiver ctx)) (acc_name (firstReceiver ctx)) (action ctx)
                      (vm\<lparr>cur_context := ctx\<rparr>))))
  \<and> (\<forall>err. check_authorization sat (vm\<lparr>cur_context := ctx\<rparr>) (authorization ctx) = Inl err
        \<longrightarrow> vm_apply sat guest vm ctx = (Inl err, vm\<lparr>cur_context := ctx\<rparr>))"
proof -
  have through_guest:
    "check_authorization sat (vm\<lparr>cur_context := ctx\<rparr>) (authorization ctx) = Inr () \<longrightarrow>
       fst (vm_apply sat guest vm ctx)
         = fst (guest (acc_name (receiver ctx)) (acc_name (firstReceiver ctx)) (action ctx)
                  (vm\<lparr>cur_context := ctx\<rparr>))
     \<and> kvCache (snd (vm_apply sat guest vm ctx)) = empty_cache
     \<and> idx64 (snd (vm_apply sat guest vm ctx)) = empty_cache
     \<and> idx128 (snd (vm_apply sat guest vm ctx)) = empty_cache
     \<and> idx256 (snd (vm_apply sat guest vm ctx)) = empty_cache
     \<and> idxDouble (snd (vm_apply sat guest vm ctx)) = empty_cache
     \<and> (\<forall>h kv. cache_get (kvCache (snd (vm_apply sat guest vm ctx))) h \<noteq> Inr kv)
     \<and> (\<forall>i e. getEndIteratorByTableId (kvCache (snd (vm_apply sat guest vm ctx))) i \<noteq> Inr e)
     \<and> bc (snd (vm_apply sat guest vm ctx))
         = bc (snd (guest (acc_name (receiver ctx)) (acc_name (firstReceiver ctx)) (action ctx)
                      (vm\<lparr>cur_context := ctx\<rparr>)))"
    by (simp add: vm_apply_def finalize_def Let_def split_beta empty_cache_resolves_nothing)
  have auth_throws:
    "\<forall>err. check_authorization sat (vm\<lparr>cur_context := ctx\<rparr>) (authorization ctx) = Inl err
        \<longrightarrow> vm_apply sat guest vm ctx = (Inl err, vm\<lparr>cur_context := ctx\<rparr>)"
    by (simp add: vm_apply_def)
  have from_empty: "caches_empty vm \<longrightarrow>
       caches_empty (snd (vm_apply sat guest vm ctx))
     \<and> (\<forall>h kv. cache_get (kvCache (snd (vm_apply sat guest vm ctx))) h \<noteq> Inr kv)
     \<and> (\<forall>i e. getEndIteratorByTableId (kvCache (snd (vm_apply sat guest vm ctx))) i \<noteq> Inr e)"
  proof
    assume entry: "caches_empty vm"
    have after: "caches_empty (snd (vm_apply sat guest vm ctx))"
    proof (cases "check_authorization sat (vm\<lparr>cur_context := ctx\<rparr>) (authorization ctx)")
      case (Inl err)
      with entry show ?thesis
        by (simp add: vm_apply_def caches_empty_def)
    next
      case (Inr u)
      then show ?thesis
        by (simp add: vm_apply_def Let_def split_beta caches_empty_finalize)
    qed
    then have "kvCache (snd (vm_apply sat guest vm ctx)) = empty_cache"
      by (simp add: caches_empty_def)
    with after
    show "caches_empty (snd (vm_apply sat guest vm ctx))
     \<and> (\<forall>h kv. cache_get (kvCache (snd (vm_apply sat guest vm ctx))) h \<noteq> Inr kv)
     \<and> (\<forall>i e. getEndIteratorByTableId (kvCache (snd (vm_apply sat guest vm ctx))) i \<noteq> Inr e)"
      by (simp add: empty_cache_resolves_nothing)
  qed
  from from_empty through_guest auth_throws show ?thesis
    by blast
qed

theorem vm_apply_destroys_caches_witness:
  "caches_empty ex_vm_fresh
   \<and> fst (vm_apply ex_sat ex_guest ex_vm_fresh ex_context) = Inr ()
   \<and> caches_empty (snd (vm_apply ex_sat ex_guest ex_vm_fresh ex_context))
   \<and> cache_get (kvCache (snd (ex_guest_store_exit 0x345c850000000000 0x345c850000000000
                                  0xcdcd3c2d57000000 (ex_vm_fresh\<lparr>cur_context := ex_context\<rparr>)))) 0
       = Inr \<lparr>tableId = 0, primaryKey = 7, payer = 0x345c850000000000,
              kv_value = [0, 0, 0, 0]\<rparr>
   \<and> fst (vm_apply ex_sat ex_guest_store_exit ex_vm_fresh ex_context)
       = Inl (EosioExitResult 0)
   \<and> caches_empty (snd (vm_apply ex_sat ex_guest_store_exit ex_vm_fresh ex_context))
   \<and> (\<forall>h kv. cache_get (kvCache (snd (vm_apply ex_sat ex_guest_store_exit ex_vm_fresh
                                          ex_context))) h \<noteq> Inr kv)
   \<and> map primaryKey
        (concat (map tab_rows
           (tables (store (bc (snd (vm_apply ex_sat ex_guest_store_exit ex_vm_fresh
                                      ex_context)))))))
      = [7, 1, 5]
   \<and> fst (vm_apply ex_sat ex_guest_find_assert ex_vm_fresh ex_context)
        = Inl (Error ''assertion failure'' [])
   \<and> caches_empty (snd (vm_apply ex_sat ex_guest_find_assert ex_vm_fresh ex_context))
   \<and> fst (vm_apply ex_sat ex_guest ex_vm_fresh ex_context_unknown_actor)
        = Inl (Error ''Account is missing for inline action'' [0x49b6a00000000000])
   \<and> caches_empty (snd (vm_apply ex_sat ex_guest ex_vm_fresh ex_context_unknown_actor))"
proof -
  have entry: "caches_empty ex_vm_fresh"
    by (simp add: caches_empty_def ex_vm_fresh_def ex_defs)
  have passes: "check_authorization ex_sat (ex_vm_fresh\<lparr>cur_context := ex_context\<rparr>)
                  (authorization ex_context) = Inr ()"
    by (simp add: getAccount_def isInline_def ex_sat_def ex_vm_fresh_def ex_defs)
  have throws:
    "check_authorization ex_sat (ex_vm_fresh\<lparr>cur_context := ex_context_unknown_actor\<rparr>)
       (authorization ex_context_unknown_actor)
     = Inl (Error ''Account is missing for inline action'' [0x49b6a00000000000])"
    by (simp add: getAccount_def ex_context_unknown_actor_def ex_vm_fresh_def ex_defs)
  have names: "acc_name (receiver ex_context) = 0x345c850000000000"
    "acc_name (firstReceiver ex_context) = 0x345c850000000000"
    "action ex_context = 0xcdcd3c2d57000000"
    by (simp_all add: ex_defs)
  have issued: "cache_get (kvCache (snd (ex_guest_store_exit 0x345c850000000000
                  0x345c850000000000 0xcdcd3c2d57000000
                  (ex_vm_fresh\<lparr>cur_context := ex_context\<rparr>)))) 0
       = Inr \<lparr>tableId = 0, primaryKey = 7, payer = 0x345c850000000000,
              kv_value = [0, 0, 0, 0]\<rparr>"
    by code_simp
  have exit: "fst (ex_guest_store_exit 0x345c850000000000 0x345c850000000000
                     0xcdcd3c2d57000000 (ex_vm_fresh\<lparr>cur_context := ex_context\<rparr>))
                = Inl (EosioExitResult 0)"
    by code_simp
  have rows: "map primaryKey (concat (map tab_rows (tables (store (bc
                (snd (ex_guest_store_exit 0x345c850000000000 0x345c850000000000
                     0xcdcd3c2d57000000 (ex_vm_fresh\<lparr>cur_context := ex_context\<rparr>))))))))
                = [7, 1, 5]"
    by code_simp
  have fails: "fst (ex_guest_find_assert 0x345c850000000000 0x345c850000000000
                     0xcdcd3c2d57000000 (ex_vm_fresh\<lparr>cur_context := ex_context\<rparr>))
                = Inl (Error ''assertion failure'' [])"
    by code_simp
  note normal = vm_apply_destroys_caches
    [where sat = ex_sat and vm = ex_vm_fresh and ctx = ex_context and guest = ex_guest]
  note exits = vm_apply_destroys_caches
    [where sat = ex_sat and vm = ex_vm_fresh and ctx = ex_context
       and guest = ex_guest_store_exit]
  note asserts = vm_apply_destroys_caches
    [where sat = ex_sat and vm = ex_vm_fresh and ctx = ex_context
       and guest = ex_guest_find_assert]
  note unknown = vm_apply_destroys_caches
    [where sat = ex_sat and vm = ex_vm_fresh and ctx = ex_context_unknown_actor
       and guest = ex_guest]
  from normal entry passes
  have w1: "fst (vm_apply ex_sat ex_guest ex_vm_fresh ex_context) = Inr ()
     \<and> caches_empty (snd (vm_apply ex_sat ex_guest ex_vm_fresh ex_context))"
    by (simp add: ex_guest_def)
  from exits entry passes exit rows
  have w2: "fst (vm_apply ex_sat ex_guest_store_exit ex_vm_fresh ex_context)
       = Inl (EosioExitResult 0)
   \<and> caches_empty (snd (vm_apply ex_sat ex_guest_store_exit ex_vm_fresh ex_context))
   \<and> (\<forall>h kv. cache_get (kvCache (snd (vm_apply ex_sat ex_guest_store_exit ex_vm_fresh
                                          ex_context))) h \<noteq> Inr kv)
   \<and> map primaryKey
        (concat (map tab_rows
           (tables (store (bc (snd (vm_apply ex_sat ex_guest_store_exit ex_vm_fresh
                                      ex_context)))))))
      = [7, 1, 5]"
    by (simp add: names empty_cache_resolves_nothing)
  from asserts entry passes fails
  have w3: "fst (vm_apply ex_sat ex_guest_find_assert ex_vm_fresh ex_context)
        = Inl (Error ''assertion failure'' [])
   \<and> caches_empty (snd (vm_apply ex_sat ex_guest_find_assert ex_vm_fresh ex_context))"
    by (simp add: names)
  from unknown entry throws
  have w4: "fst (vm_apply ex_sat ex_guest ex_vm_fresh ex_context_unknown_actor)
        = Inl (Error ''Account is missing for inline action'' [0x49b6a00000000000])
   \<and> caches_empty (snd (vm_apply ex_sat ex_guest ex_vm_fresh ex_context_unknown_actor))"
    by (simp add: caches_empty_def)
  from entry issued w1 w2 w3 w4 show ?thesis
    by blast
qed

end
